theory Spec2Isabelle
  imports Main "HOL-Library.Word" "HOL-Library.Sublist" "HOL-Library.Char_ord"
    "HOL-Library.List_Lexorder"
begin

section \<open>Go values shared by both packages\<close>

text \<open>
  Go's \<open>int64\<close> is a 64-bit word whose \<open>+\<close> wraps. Go's \<open>int\<close> is taken at its
  64-bit size. A \<open>float64\<close> is carried as its binary64 bit pattern: the clients never
  compute with floats, they only move them between records and the JSON codec.
  \<open>time.Duration\<close> is an \<open>int64\<close> count of nanoseconds.
\<close>

type_synonym int64 = "64 word"
type_synonym go_int = "64 word"
type_synonym float64 = "64 word"
type_synonym Duration = "64 word"

text \<open>A slice is nil (\<open>None\<close>) or holds its elements; the empty slice is \<open>Some []\<close>.\<close>

type_synonym 'a slice = "'a list option"

definition Second :: Duration where
  "Second = 1000000000"

text \<open>
  An \<open>error\<close> value has a message (what \<open>Error()\<close> returns) and, when it was built by
  \<open>fmt.Errorf\<close> with the verb \<open>%w\<close>, the error it wraps.
\<close>

datatype error = Error (message: string) (unwrap: "error option")

text \<open>\<open>fmt.Errorf(fmt + "%w", e)\<close>: the message is the text before the verb followed by the cause's message.\<close>

definition Errorf_w :: "string \<Rightarrow> error \<Rightarrow> error" where
  "Errorf_w fmt e = Error (fmt @ message e) (Some e)"

text \<open>The verb \<open>%d\<close> of package fmt on an integer: decimal digits, with a leading minus sign.\<close>

fun fmt_nat :: "nat \<Rightarrow> string" where
  "fmt_nat n = (if n < 10 then [''0123456789'' ! n]
                else fmt_nat (n div 10) @ [''0123456789'' ! (n mod 10)])"

definition fmt_d :: "int \<Rightarrow> string" where
  "fmt_d i = (if i < 0 then CHR ''-'' # fmt_nat (nat (- i)) else fmt_nat (nat i))"

text \<open>
  A value of type \<open>interface{}\<close>, as far as package encoding/json produces one:
  nil, bool, float64, string, a slice or a map with string keys.
\<close>

datatype any =
    any_nil
  | any_bool bool
  | any_float64 float64
  | any_string string
  | any_slice "any list"
  | any_map "(string \<times> any) list"

section \<open>HTTP as the clients see it\<close>

text \<open>
  A request as built by \<open>http.NewRequest\<close> and \<open>Header.Set\<close>. The header is a map from
  the key to the single value \<open>Set\<close> stores (the keys used here are already in canonical
  form). The body is absent for a GET.
\<close>

record Request =
  Method :: string
  URL :: string
  Header :: "string \<rightharpoonup> string"
  ReqBody :: "string option"

definition Header_Set :: "Request \<Rightarrow> string \<Rightarrow> string \<Rightarrow> Request" where
  "Header_Set req k v = req\<lparr>Header := (Header req)(k \<mapsto> v)\<rparr>"

text \<open>
  A response body is a stream: the bytes it delivers, then either end of file or a read
  error. \<open>io.ReadAll\<close> returns the bytes when the stream ends cleanly and the error
  otherwise.
\<close>

datatype body = Stream string "error option"

fun ReadAll :: "body \<Rightarrow> error + string" where
  "ReadAll (Stream bs None) = Inr bs"
| "ReadAll (Stream bs (Some e)) = Inl e"

record Response =
  StatusCode :: int
  Body :: body

definition StatusOK :: int where
  "StatusOK = 200"

text \<open>
  The network is not part of the repository. It is a parameter of every method:
  \<open>NewRequest_err\<close> says whether \<open>http.NewRequest\<close> rejects a method and URL,
  \<open>Do\<close> is what \<open>c.httpClient.Do\<close> answers to a request, and \<open>Unix_now\<close> is what
  \<open>time.Now().Unix()\<close> reads when the method is called.
\<close>

record net =
  NewRequest_err :: "string \<Rightarrow> string \<Rightarrow> error option"
  Do :: "Request \<Rightarrow> error + Response"
  Unix_now :: int64

definition NewRequest :: "'e net_scheme \<Rightarrow> string \<Rightarrow> string \<Rightarrow> string option \<Rightarrow> error + Request" where
  "NewRequest n m url b =
     (case NewRequest_err n m url of
        Some e \<Rightarrow> Inl e
      | None \<Rightarrow> Inr \<lparr>Method = m, URL = url, Header = Map.empty, ReqBody = b\<rparr>)"

text \<open>
  What a method returns and does: the requests it handed to the HTTP client, in order,
  and Go's pair of results, a pointer (nil is \<open>None\<close>) and an error (nil is \<open>None\<close>).
\<close>

record 'a outcome =
  sent :: "Request list"
  ret :: "'a option"
  err :: "error option"

definition fail :: "Request list \<Rightarrow> error \<Rightarrow> 'a outcome" where
  "fail rs e = \<lparr>sent = rs, ret = None, err = Some e\<rparr>"

definition succeed :: "Request list \<Rightarrow> 'a \<Rightarrow> 'a outcome" where
  "succeed rs v = \<lparr>sent = rs, ret = Some v, err = None\<rparr>"

text \<open>
  \<open>http.Client.Get(url)\<close> of the standard library: it builds a GET request with
  \<open>NewRequest\<close>, returns its error if there is one, and otherwise calls \<open>Do\<close>. The
  first component is the request handed to \<open>Do\<close>, if any.
\<close>

definition Client_Get :: "'e net_scheme \<Rightarrow> string \<Rightarrow> Request list \<times> (error + Response)" where
  "Client_Get n url =
     (case NewRequest n ''GET'' url None of
        Inl e \<Rightarrow> ([], Inl e)
      | Inr req \<Rightarrow> ([req], Do n req))"

text \<open>
  Pointers are addresses into a store of cells, \<open>None\<close> being nil. \<open>&T{...}\<close> allocates a
  fresh cell at the end of the store.
\<close>

type_synonym ptr = "nat option"

definition load :: "'a list \<Rightarrow> ptr \<Rightarrow> 'a option" where
  "load cells p = (case p of None \<Rightarrow> None
                   | Some i \<Rightarrow> if i < length cells then Some (cells ! i) else None)"

definition alloc :: "'a list \<Rightarrow> 'a \<Rightarrow> ptr \<times> 'a list" where
  "alloc cells v = (Some (length cells), cells @ [v])"

record http_Client =
  Timeout :: Duration

text \<open>The store of one package: the \<open>http.Client\<close> cells and the cells of its own client type.\<close>

record 'c store =
  http_Clients :: "http_Client list"
  clients :: "'c list"

section \<open>Package encoding/json on the request records\<close>

text \<open>
  The HTTP methods take the codec as a parameter. For the round trip of the request
  records the codec itself is modelled, from the documentation of packages encoding/json,
  unicode/utf8 and strconv. A JSON document is kept as its tree: white space, the order of
  escapes in a string and the other choices of the text that \<open>Marshal\<close> writes and
  \<open>Unmarshal\<close> reads back are left out. A number is kept as its literal, a string as the
  bytes it denotes, an object as its members in the order written.
\<close>

datatype json =
    JNull
  | JBool bool
  | JNumber string
  | JString string
  | JArray "json list"
  | JObject "(string \<times> json) list"

text \<open>
  A \<open>float64\<close> is finite unless its eleven exponent bits are all set. \<open>Marshal\<close> refuses
  the others with an \<open>UnsupportedValueError\<close>, whose message names the value as
  \<open>strconv.FormatFloat\<close> with format \<open>g\<close> prints it.
\<close>

definition float64_finite :: "float64 \<Rightarrow> bool" where
  "float64_finite f = (take_bit 11 (drop_bit 52 f) \<noteq> (2047 :: 64 word))"

definition float64_g :: "float64 \<Rightarrow> string" where
  "float64_g f = (if take_bit 52 f \<noteq> 0 then ''NaN'' else if bit f 63 then ''-Inf'' else ''+Inf'')"

definition UnsupportedValueError :: "float64 \<Rightarrow> error" where
  "UnsupportedValueError f = Error (''json: unsupported value: '' @ float64_g f) None"

text \<open>
  The literal of a finite \<open>float64\<close> is written by \<open>strconv\<close> with the fewest digits that
  read back as the same value, and read by \<open>strconv.ParseFloat\<close>. Both are parameters:
  \<open>FormatFloat\<close> is what \<open>Marshal\<close> writes for a finite \<open>float64\<close>, \<open>ParseFloat\<close> what
  \<open>Unmarshal\<close> reads from a literal, if it is in range.
\<close>

record strconv =
  FormatFloat :: "float64 \<Rightarrow> string"
  ParseFloat :: "string \<Rightarrow> float64 option"

text \<open>
  An integer is written in decimal, as by \<open>%d\<close>, and read by \<open>strconv.ParseInt\<close> in base
  10 at 64 bits: an optional sign, then digits only, and the value must fit.
\<close>

definition byte :: "char \<Rightarrow> nat" where
  "byte c = of_char c"

definition parse_digits :: "string \<Rightarrow> nat option" where
  "parse_digits ds =
     (if ds \<noteq> [] \<and> list_all (\<lambda>c. 48 \<le> byte c \<and> byte c \<le> 57) ds
      then Some (foldl (\<lambda>a c. 10 * a + (byte c - 48)) 0 ds) else None)"

definition ParseInt64 :: "string \<Rightarrow> int64 option" where
  "ParseInt64 s =
     (case s of
        [] \<Rightarrow> None
      | c # ds \<Rightarrow>
          if c = CHR ''-'' then
            (case parse_digits ds of
               None \<Rightarrow> None
             | Some n \<Rightarrow> if n \<le> 2 ^ 63 then Some (- of_nat n) else None)
          else
            (case parse_digits (if c = CHR ''+'' then ds else s) of
               None \<Rightarrow> None
             | Some n \<Rightarrow> if n < 2 ^ 63 then Some (of_nat n) else None))"

text \<open>
  \<open>utf8.DecodeRuneInString\<close>: the length of the well-formed UTF-8 sequence at the head
  of a string, and 0 where there is none (there it returns \<open>RuneError\<close> with width 1). The
  first byte fixes the length and the range of the second byte; the later bytes are
  continuation bytes.
\<close>

definition rune_len :: "string \<Rightarrow> nat" where
  "rune_len s =
     (case s of
        [] \<Rightarrow> 0
      | c0 # cs \<Rightarrow>
          (let b0 = byte c0;
               lo = (if b0 = 0xE0 then 0xA0 else if b0 = 0xF0 then 0x90 else 0x80);
               hi = (if b0 = 0xED then 0x9F else if b0 = 0xF4 then 0x8F else 0xBF);
               sz = (if b0 < 0x80 then 1 else if b0 < 0xC2 then 0 else if b0 < 0xE0 then 2
                     else if b0 < 0xF0 then 3 else if b0 < 0xF5 then 4 else 0)
           in if sz \<le> 1 then sz
              else if length cs < sz - 1 then 0
              else if \<not> (lo \<le> byte (cs ! 0) \<and> byte (cs ! 0) \<le> hi) then 0
              else if sz = 2 then 2
              else if \<not> (0x80 \<le> byte (cs ! 1) \<and> byte (cs ! 1) \<le> 0xBF) then 0
              else if sz = 3 then 3
              else if \<not> (0x80 \<le> byte (cs ! 2) \<and> byte (cs ! 2) \<le> 0xBF) then 0
              else 4))"

text \<open>
  What a Go string becomes when it is written as a JSON string and read back: every byte
  that does not start a well-formed sequence is replaced by U+FFFD (the bytes EF BF BD),
  every well-formed sequence is kept. The first argument counts the bytes of the current
  sequence still to be copied. \<open>valid_utf8\<close> is \<open>utf8.ValidString\<close>, by the same walk.
\<close>

fun coerce_utf8 :: "nat \<Rightarrow> string \<Rightarrow> string" where
  "coerce_utf8 k [] = []"
| "coerce_utf8 k (c # cs) =
     (if 0 < k then c # coerce_utf8 (k - 1) cs
      else if rune_len (c # cs) = 0 then CHR 0xEF # CHR 0xBF # CHR 0xBD # coerce_utf8 0 cs
      else c # coerce_utf8 (rune_len (c # cs) - 1) cs)"

fun valid_utf8 :: "nat \<Rightarrow> string \<Rightarrow> bool" where
  "valid_utf8 k [] = True"
| "valid_utf8 k (c # cs) =
     (if 0 < k then valid_utf8 (k - 1) cs
      else rune_len (c # cs) \<noteq> 0 \<and> valid_utf8 (rune_len (c # cs) - 1) cs)"

definition ValidString :: "string \<Rightarrow> bool" where
  "ValidString s = valid_utf8 0 s"

text \<open>
  An \<open>UnmarshalTypeError\<close>: a JSON value of the wrong kind for the Go type, or a number
  out of its range. The message is abbreviated to the kind and the type.
\<close>

definition json_kind :: "json \<Rightarrow> string" where
  "json_kind j = (case j of JNull \<Rightarrow> ''null'' | JBool b \<Rightarrow> ''bool'' | JNumber n \<Rightarrow> ''number''
                  | JString s \<Rightarrow> ''string'' | JArray js \<Rightarrow> ''array'' | JObject kvs \<Rightarrow> ''object'')"

definition UnmarshalTypeError :: "json \<Rightarrow> string \<Rightarrow> error" where
  "UnmarshalTypeError j t =
     Error (''json: cannot unmarshal '' @ json_kind j @ '' into Go value of type '' @ t) None"

text \<open>
  \<open>Marshal\<close>, type by type. A string is written coerced to valid UTF-8, an integer in
  decimal, a finite \<open>float64\<close> by \<open>strconv\<close>; a nil slice as \<open>null\<close> and any other slice as
  the array of its elements; a struct as the object of its fields, under their tags and in
  their order. The first value that cannot be written is the error.
\<close>

definition encode_string :: "string \<Rightarrow> error + json" where
  "encode_string s = Inr (JString (coerce_utf8 0 s))"

definition encode_bool :: "bool \<Rightarrow> error + json" where
  "encode_bool b = Inr (JBool b)"

definition encode_int64 :: "int64 \<Rightarrow> error + json" where
  "encode_int64 w = Inr (JNumber (fmt_d (sint w)))"

definition encode_float64 :: "strconv \<Rightarrow> float64 \<Rightarrow> error + json" where
  "encode_float64 sc f =
     (if float64_finite f then Inr (JNumber (FormatFloat sc f)) else Inl (UnsupportedValueError f))"

fun sequence :: "(error + 'a) list \<Rightarrow> error + 'a list" where
  "sequence [] = Inr []"
| "sequence (x # xs) =
     (case x of
        Inl e \<Rightarrow> Inl e
      | Inr v \<Rightarrow> (case sequence xs of Inl e \<Rightarrow> Inl e | Inr vs \<Rightarrow> Inr (v # vs)))"

definition encode_slice :: "('a \<Rightarrow> error + json) \<Rightarrow> 'a slice \<Rightarrow> error + json" where
  "encode_slice enc s =
     (case s of
        None \<Rightarrow> Inr JNull
      | Some xs \<Rightarrow> (case sequence (map enc xs) of Inl e \<Rightarrow> Inl e | Inr js \<Rightarrow> Inr (JArray js)))"

definition encode_struct :: "(string \<times> (error + json)) list \<Rightarrow> error + json" where
  "encode_struct fs =
     (case sequence (map snd fs) of
        Inl e \<Rightarrow> Inl e
      | Inr js \<Rightarrow> Inr (JObject (zip (map fst fs) js)))"

text \<open>
  \<open>Unmarshal\<close>, type by type, into a variable that holds a value already. \<open>null\<close> leaves a
  string, a bool, a number and a struct as they are and makes a slice nil. A string is
  read coerced to valid UTF-8. An array is read into a slice element by element, into the
  elements the slice has and into zero values beyond them.
\<close>

definition decode_string :: "json \<Rightarrow> string \<Rightarrow> error + string" where
  "decode_string j old =
     (case j of
        JNull \<Rightarrow> Inr old
      | JString s \<Rightarrow> Inr (coerce_utf8 0 s)
      | _ \<Rightarrow> Inl (UnmarshalTypeError j ''string''))"

definition decode_bool :: "json \<Rightarrow> bool \<Rightarrow> error + bool" where
  "decode_bool j old =
     (case j of
        JNull \<Rightarrow> Inr old
      | JBool b \<Rightarrow> Inr b
      | _ \<Rightarrow> Inl (UnmarshalTypeError j ''bool''))"

definition decode_int64 :: "json \<Rightarrow> int64 \<Rightarrow> error + int64" where
  "decode_int64 j old =
     (case j of
        JNull \<Rightarrow> Inr old
      | JNumber lit \<Rightarrow>
          (case ParseInt64 lit of
             None \<Rightarrow> Inl (UnmarshalTypeError j ''int64'')
           | Some w \<Rightarrow> Inr w)
      | _ \<Rightarrow> Inl (UnmarshalTypeError j ''int64''))"

definition decode_float64 :: "strconv \<Rightarrow> json \<Rightarrow> float64 \<Rightarrow> error + float64" where
  "decode_float64 sc j old =
     (case j of
        JNull \<Rightarrow> Inr old
      | JNumber lit \<Rightarrow>
          (case ParseFloat sc lit of
             None \<Rightarrow> Inl (UnmarshalTypeError j ''float64'')
           | Some f \<Rightarrow> Inr f)
      | _ \<Rightarrow> Inl (UnmarshalTypeError j ''float64''))"

fun decode_elems :: "(json \<Rightarrow> 'a \<Rightarrow> error + 'a) \<Rightarrow> 'a \<Rightarrow> json list \<Rightarrow> 'a list \<Rightarrow> error + 'a list" where
  "decode_elems dec z [] old = Inr []"
| "decode_elems dec z (j # js) old =
     (case dec j (case old of [] \<Rightarrow> z | x # xs \<Rightarrow> x) of
        Inl e \<Rightarrow> Inl e
      | Inr v \<Rightarrow>
          (case decode_elems dec z js (tl old) of Inl e \<Rightarrow> Inl e | Inr vs \<Rightarrow> Inr (v # vs)))"

definition decode_slice :: "(json \<Rightarrow> 'a \<Rightarrow> error + 'a) \<Rightarrow> 'a \<Rightarrow> json \<Rightarrow> 'a slice \<Rightarrow> error + 'a slice" where
  "decode_slice dec z j old =
     (case j of
        JNull \<Rightarrow> Inr None
      | JArray js \<Rightarrow>
          (case decode_elems dec z js (case old of None \<Rightarrow> [] | Some xs \<Rightarrow> xs) of
             Inl e \<Rightarrow> Inl e
           | Inr vs \<Rightarrow> Inr (Some vs))
      | _ \<Rightarrow> Inl (UnmarshalTypeError j ''slice''))"

text \<open>
  An object is read into a struct member by member, in the order written, so that a
  repeated key is read again into the same field. A key selects the field whose tag it
  equals, or else the first field whose tag it equals when both are folded: a lower-case
  ASCII letter to upper case, the Kelvin sign (E2 84 AA) to \<open>K\<close> and the long s (C5 BF)
  to \<open>S\<close>. No other rune folds to an ASCII letter and all the tags here are ASCII. A
  key that selects no field is skipped.
\<close>

fun foldName :: "string \<Rightarrow> string" where
  "foldName [] = []"
| "foldName (c # cs) =
     (if 97 \<le> byte c \<and> byte c \<le> 122 then char_of (byte c - 32) # foldName cs
      else if c = CHR 0xE2 \<and> take 2 cs = [CHR 0x84, CHR 0xAA] then CHR ''K'' # foldName (drop 2 cs)
      else if c = CHR 0xC5 \<and> take 1 cs = [CHR 0xBF] then CHR ''S'' # foldName (drop 1 cs)
      else c # foldName cs)"

type_synonym 'r field = "string \<times> (json \<Rightarrow> 'r \<Rightarrow> error + 'r)"

definition find_field :: "'r field list \<Rightarrow> string \<Rightarrow> (json \<Rightarrow> 'r \<Rightarrow> error + 'r) option" where
  "find_field fs key =
     (case map_of fs key of
        Some f \<Rightarrow> Some f
      | None \<Rightarrow> map_of (map (\<lambda>tf. (foldName (fst tf), snd tf)) fs) (foldName key))"

fun decode_members :: "'r field list \<Rightarrow> (string \<times> json) list \<Rightarrow> 'r \<Rightarrow> error + 'r" where
  "decode_members fs [] r = Inr r"
| "decode_members fs (kv # kvs) r =
     (case find_field fs (fst kv) of
        None \<Rightarrow> decode_members fs kvs r
      | Some f \<Rightarrow>
          (case f (snd kv) r of Inl e \<Rightarrow> Inl e | Inr r' \<Rightarrow> decode_members fs kvs r'))"

definition decode_struct :: "'r field list \<Rightarrow> json \<Rightarrow> 'r \<Rightarrow> error + 'r" where
  "decode_struct fs j r =
     (case j of
        JNull \<Rightarrow> Inr r
      | JObject kvs \<Rightarrow> decode_members fs kvs r
      | _ \<Rightarrow> Inl (UnmarshalTypeError j ''struct''))"

text \<open>One field of a struct: read the value into what the field holds and store the result.\<close>

definition field ::
  "('r \<Rightarrow> 'a) \<Rightarrow> (('a \<Rightarrow> 'a) \<Rightarrow> 'r \<Rightarrow> 'r) \<Rightarrow> (json \<Rightarrow> 'a \<Rightarrow> error + 'a) \<Rightarrow> json \<Rightarrow> 'r \<Rightarrow> error + 'r" where
  "field get upd dec j r =
     (case dec j (get r) of Inl e \<Rightarrow> Inl e | Inr v \<Rightarrow> Inr (upd (\<lambda>old. v) r))"

text \<open>
  An \<open>interface{}\<close> is written as the value it holds. A map is written with its keys
  sorted; \<open>any_map\<close> lists a map by increasing key, each key once. Reading into an
  \<open>interface{}\<close> that holds no pointer replaces it: \<open>null\<close> by nil, a number by the
  \<open>float64\<close> \<open>ParseFloat\<close> reads, an array by a slice, an object by the map of its
  members, a later member overriding an earlier one with the same key.
\<close>

fun encode_any :: "strconv \<Rightarrow> any \<Rightarrow> error + json" where
  "encode_any sc any_nil = Inr JNull"
| "encode_any sc (any_bool b) = encode_bool b"
| "encode_any sc (any_float64 f) = encode_float64 sc f"
| "encode_any sc (any_string s) = encode_string s"
| "encode_any sc (any_slice xs) =
     (case sequence (map (encode_any sc) xs) of Inl e \<Rightarrow> Inl e | Inr js \<Rightarrow> Inr (JArray js))"
| "encode_any sc (any_map kvs) =
     (case sequence
             (map (\<lambda>kv. case snd kv of Inl e \<Rightarrow> Inl e | Inr j \<Rightarrow> Inr (coerce_utf8 0 (fst kv), j))
                (sort_key fst (map (\<lambda>kv. (fst kv, encode_any sc (snd kv))) kvs))) of
        Inl e \<Rightarrow> Inl e
      | Inr ms \<Rightarrow> Inr (JObject ms))"

fun map_put :: "string \<Rightarrow> any \<Rightarrow> (string \<times> any) list \<Rightarrow> (string \<times> any) list" where
  "map_put k v [] = [(k, v)]"
| "map_put k v (kv # m) =
     (if k = fst kv then (k, v) # m
      else if k < fst kv then (k, v) # kv # m
      else kv # map_put k v m)"

fun any_of_json :: "strconv \<Rightarrow> json \<Rightarrow> error + any" where
  "any_of_json sc JNull = Inr any_nil"
| "any_of_json sc (JBool b) = Inr (any_bool b)"
| "any_of_json sc (JNumber lit) =
     (case ParseFloat sc lit of
        None \<Rightarrow> Inl (UnmarshalTypeError (JNumber lit) ''float64'')
      | Some f \<Rightarrow> Inr (any_float64 f))"
| "any_of_json sc (JString s) = Inr (any_string (coerce_utf8 0 s))"
| "any_of_json sc (JArray js) =
     (case sequence (map (any_of_json sc) js) of Inl e \<Rightarrow> Inl e | Inr vs \<Rightarrow> Inr (any_slice vs))"
| "any_of_json sc (JObject kvs) =
     (case sequence
             (map (\<lambda>kv. case any_of_json sc (snd kv) of
                          Inl e \<Rightarrow> Inl e
                        | Inr v \<Rightarrow> Inr (coerce_utf8 0 (fst kv), v)) kvs) of
        Inl e \<Rightarrow> Inl e
      | Inr ms \<Rightarrow> Inr (any_map (foldl (\<lambda>m kv. map_put (fst kv) (snd kv) m) [] ms)))"

definition decode_any :: "strconv \<Rightarrow> json \<Rightarrow> any \<Rightarrow> error + any" where
  "decode_any sc j old = any_of_json sc j"

text \<open>
  The values the round trip is stated for: finite floats, valid UTF-8 strings, and in an
  \<open>interface{}\<close> maps listed by strictly increasing key.
\<close>

definition slice_all :: "('a \<Rightarrow> bool) \<Rightarrow> 'a slice \<Rightarrow> bool" where
  "slice_all P s = (case s of None \<Rightarrow> True | Some xs \<Rightarrow> list_all P xs)"

fun wf_any :: "any \<Rightarrow> bool" where
  "wf_any any_nil = True"
| "wf_any (any_bool b) = True"
| "wf_any (any_float64 f) = float64_finite f"
| "wf_any (any_string s) = ValidString s"
| "wf_any (any_slice xs) = list_all wf_any xs"
| "wf_any (any_map kvs) =
     (sorted_wrt (<) (map fst kvs) \<and> list_all (\<lambda>kv. ValidString (fst kv) \<and> wf_any (snd kv)) kvs)"

text \<open>
  A value survives the round trip when \<open>Marshal\<close> writes it and \<open>Unmarshal\<close> reads what
  was written back as the same value, whatever the variable held before.
\<close>

definition round_trips :: "('a \<Rightarrow> error + json) \<Rightarrow> (json \<Rightarrow> 'a \<Rightarrow> error + 'a) \<Rightarrow> 'a \<Rightarrow> bool" where
  "round_trips enc dec x = (\<exists>j. enc x = Inr j \<and> (\<forall>old. dec j old = Inr x))"

text \<open>
  A stand-in for \<open>strconv\<close> in closed instances: it writes a \<open>float64\<close> as the decimal of
  its bit pattern and reads that back.
\<close>

definition stub_strconv :: strconv where
  "stub_strconv = \<lparr>FormatFloat = (\<lambda>f. fmt_d (sint f)), ParseFloat = ParseInt64\<rparr>"

section \<open>Package odos\<close>

definition odos_baseURL :: string where
  "odos_baseURL = ''https://api.odos.xyz''"

record PriceResponse =
  CurrencyId :: string
  Price :: float64

record InputToken =
  TokenAddress :: string
  Amount :: string

record OutputToken =
  TokenAddress :: string
  Proportion :: float64

record QuoteRequest =
  ChainId :: go_int
  InputTokens :: "InputToken slice"
  OutputTokens :: "OutputToken slice"
  GasPrice :: float64
  UserAddr :: string
  SlippageLimitPercent :: float64
  SourceBlacklist :: "string slice"
  SourceWhitelist :: "string slice"
  PoolBlacklist :: "string slice"
  PathViz :: bool
  ReferralCode :: go_int
  Compact :: bool
  LikeAsset :: bool
  DisableRFQs :: bool
  Simple :: bool

record Token =
  Name :: string
  Symbol :: string
  Decimals :: go_int
  Visible :: bool
  Width :: go_int

record TokenInfo =
  Name :: string
  Symbol :: string
  Decimals :: go_int
  AssetID :: string
  AssetType :: string
  IsRebasing :: bool
  CgID :: string

record PathLink =
  Source :: go_int
  Target :: go_int
  SourceExtend :: bool
  TargetExtend :: bool
  Label :: string
  Value :: float64
  NextValue :: float64
  StepValue :: float64
  InValue :: float64
  OutValue :: float64
  EdgeLen :: go_int
  SourceToken :: TokenInfo
  TargetToken :: TokenInfo

record PathViz =
  Nodes :: "Token slice"
  Links :: "PathLink slice"

record QuoteResponse =
  InTokens :: "string slice"
  OutTokens :: "string slice"
  InAmounts :: "string slice"
  OutAmounts :: "string slice"
  GasEstimate :: float64
  DataGasEstimate :: go_int
  GweiPerGas :: float64
  GasEstimateValue :: float64
  InValues :: "float64 slice"
  OutValues :: "float64 slice"
  NetOutValue :: float64
  PriceImpact :: float64
  PercentDiff :: float64
  PartnerFeePercent :: float64
  PathId :: string
  PathViz :: PathViz
  BlockNumber :: int64

record AssembleRequest =
  UserAddr :: string
  PathId :: string
  Simulate :: bool

record Transaction =
  Gas :: int64
  GasPrice :: int64
  Value :: string
  To :: string
  From :: string
  Data :: string
  Nonce :: int64
  ChainId :: go_int

record Simulation =
  IsSuccess :: bool
  AmountsOut :: "int64 slice"
  GasEstimate :: int64
  SimulationError :: string

text \<open>The element type of \<open>AssembleResponse.OutputTokens\<close>, an anonymous struct in the source.\<close>

record AssembleResponse_OutputToken =
  TokenAddress :: string
  Amount :: string

record AssembleResponse =
  Deprecated :: "string option"
  BlockNumber :: int64
  GasEstimate :: int64
  GasEstimateValue :: float64
  InputTokens :: "InputToken slice"
  OutputTokens :: "AssembleResponse_OutputToken slice"
  NetOutValue :: float64
  OutValues :: "string slice"
  Transaction :: Transaction
  Simulation :: Simulation

record OdosClient =
  httpClient :: ptr
  baseURL :: string

text \<open>
  The zero values behind \<open>var priceResp PriceResponse\<close>, \<open>var quoteResp QuoteResponse\<close>
  and \<open>var assembleResp AssembleResponse\<close>: empty strings, zero numbers, false, nil slices
  and pointers.
\<close>

definition zero_PriceResponse :: PriceResponse where
  "zero_PriceResponse = \<lparr>CurrencyId = [], Price = 0\<rparr>"

definition zero_QuoteResponse :: QuoteResponse where
  "zero_QuoteResponse =
     \<lparr>InTokens = None, OutTokens = None, InAmounts = None, OutAmounts = None,
      QuoteResponse.GasEstimate = 0, DataGasEstimate = 0, GweiPerGas = 0,
      QuoteResponse.GasEstimateValue = 0, InValues = None, QuoteResponse.OutValues = None,
      QuoteResponse.NetOutValue = 0, PriceImpact = 0, PercentDiff = 0, PartnerFeePercent = 0,
      QuoteResponse.PathId = [], QuoteResponse.PathViz = \<lparr>Nodes = None, Links = None\<rparr>,
      QuoteResponse.BlockNumber = 0\<rparr>"

definition zero_AssembleResponse :: AssembleResponse where
  "zero_AssembleResponse =
     \<lparr>Deprecated = None, BlockNumber = 0, GasEstimate = 0, GasEstimateValue = 0,
      InputTokens = None, OutputTokens = None, NetOutValue = 0, OutValues = None,
      Transaction = \<lparr>Gas = 0, Transaction.GasPrice = 0, Transaction.Value = [], To = [],
        From = [], Data = [], Nonce = 0, Transaction.ChainId = 0\<rparr>,
      Simulation = \<lparr>IsSuccess = False, AmountsOut = None, Simulation.GasEstimate = 0,
        SimulationError = []\<rparr>\<rparr>"

text \<open>
  Package encoding/json is not part of the repository either. The environment of the
  Odos methods extends the network by the codec calls they make: \<open>json.Marshal\<close> on the
  two request types (\<open>Quote\<close> marshals its pointer argument, which may be nil),
  \<open>json.NewDecoder(resp.Body).Decode\<close> into a price and a quote response, and
  \<open>json.Unmarshal\<close> of buffered bytes into an assemble response. A decoder is given the
  variable it decodes into and returns the filled variable or an error.
\<close>

record odos_env = net +
  Marshal_QuoteRequest :: "QuoteRequest option \<Rightarrow> error + string"
  Marshal_AssembleRequest :: "AssembleRequest \<Rightarrow> error + string"
  Decode_PriceResponse :: "body \<Rightarrow> PriceResponse \<Rightarrow> error + PriceResponse"
  Decode_QuoteResponse :: "body \<Rightarrow> QuoteResponse \<Rightarrow> error + QuoteResponse"
  Unmarshal_AssembleResponse :: "string \<Rightarrow> AssembleResponse \<Rightarrow> error + AssembleResponse"

definition odos_NewClient :: "OdosClient store \<Rightarrow> string \<Rightarrow> ptr \<times> OdosClient store" where
  "odos_NewClient s baseURL0 =
     (let baseURL1 = (if baseURL0 = [] then odos_baseURL else baseURL0);
          (hc, hcs) = alloc (http_Clients s) \<lparr>Timeout = 10 * Second\<rparr>;
          (c, cs) = alloc (clients s) \<lparr>httpClient = hc, baseURL = baseURL1\<rparr>
      in (c, s\<lparr>http_Clients := hcs, clients := cs\<rparr>))"

definition GetTokenPrice :: "odos_env \<Rightarrow> OdosClient \<Rightarrow> string \<Rightarrow> string \<Rightarrow> PriceResponse outcome" where
  "GetTokenPrice env c chainID tokenAddr =
     (let url = baseURL c @ ''/pricing/token/'' @ chainID @ ''/'' @ tokenAddr in
      case Client_Get env url of
        (rs, Inl e) \<Rightarrow> fail rs (Errorf_w ''failed to get token price: '' e)
      | (rs, Inr resp) \<Rightarrow>
          (case Decode_PriceResponse env (Body resp) zero_PriceResponse of
             Inl e \<Rightarrow> fail rs (Errorf_w ''failed to decode response: '' e)
           | Inr priceResp \<Rightarrow> succeed rs priceResp))"

text \<open>The four \<open>request.Header.Set\<close> calls that \<open>Quote\<close> and \<open>Assemble\<close> both make.\<close>

definition odos_set_headers :: "Request \<Rightarrow> Request" where
  "odos_set_headers request =
     Header_Set (Header_Set (Header_Set (Header_Set request
       ''Content-Type'' ''application/json'')
       ''Accept'' ''*/*'')
       ''Origin'' ''https://app.odos.xyz'')
       ''Referer'' ''https://app.odos.xyz/''"

definition Quote :: "odos_env \<Rightarrow> OdosClient \<Rightarrow> QuoteRequest option \<Rightarrow> QuoteResponse outcome" where
  "Quote env c req =
     (let url = baseURL c @ ''/sor/quote/v2'' in
      case Marshal_QuoteRequest env req of
        Inl e \<Rightarrow> fail [] (Errorf_w ''failed to marshal request: '' e)
      | Inr jsonData \<Rightarrow>
          (case NewRequest env ''POST'' url (Some jsonData) of
             Inl e \<Rightarrow> fail [] (Errorf_w ''failed to create request: '' e)
           | Inr request0 \<Rightarrow>
               (let request = odos_set_headers request0 in
                case Do env request of
                  Inl e \<Rightarrow> fail [request] (Errorf_w ''failed to get quote: '' e)
                | Inr resp \<Rightarrow>
                    (case Decode_QuoteResponse env (Body resp) zero_QuoteResponse of
                       Inl e \<Rightarrow> fail [request] (Errorf_w ''failed to decode response: '' e)
                     | Inr quoteResp \<Rightarrow> succeed [request] quoteResp))))"

definition Assemble :: "odos_env \<Rightarrow> OdosClient \<Rightarrow> string \<Rightarrow> string \<Rightarrow> bool \<Rightarrow> AssembleResponse outcome" where
  "Assemble env c userAddr pathId isSimulate =
     (let url = baseURL c @ ''/sor/assemble'';
          req = \<lparr>UserAddr = userAddr, PathId = pathId, Simulate = isSimulate\<rparr> in
      case Marshal_AssembleRequest env req of
        Inl e \<Rightarrow> fail [] (Errorf_w ''failed to marshal request: '' e)
      | Inr jsonData \<Rightarrow>
          (case NewRequest env ''POST'' url (Some jsonData) of
             Inl e \<Rightarrow> fail [] (Errorf_w ''failed to create request: '' e)
           | Inr request0 \<Rightarrow>
               (let request = odos_set_headers request0 in
                case Do env request of
                  Inl e \<Rightarrow> fail [request] (Errorf_w ''failed to assemble transaction: '' e)
                | Inr resp \<Rightarrow>
                    (case ReadAll (Body resp) of
                       Inl e \<Rightarrow> fail [request] (Errorf_w ''failed to read response body: '' e)
                     | Inr body \<Rightarrow>
                         if StatusCode resp \<noteq> StatusOK then
                           fail [request]
                             (Error (''unexpected status code: '' @ fmt_d (StatusCode resp)
                                     @ '', response: '' @ body) None)
                         else
                           (case Unmarshal_AssembleResponse env body zero_AssembleResponse of
                              Inl e \<Rightarrow> fail [request] (Errorf_w ''failed to decode response: '' e)
                            | Inr assembleResp \<Rightarrow> succeed [request] assembleResp)))))"

text \<open>
  The codec on the Odos request records: for each struct its zero value, what \<open>Marshal\<close>
  writes (the fields under their tags, in the order of the declaration), the table of its
  fields for \<open>Unmarshal\<close>, and the records the round trip is stated for.
\<close>

definition zero_InputToken :: InputToken where
  "zero_InputToken =
     \<lparr>InputToken.TokenAddress = [],
      InputToken.Amount = []\<rparr>"

definition encode_InputToken :: "InputToken \<Rightarrow> error + json" where
  "encode_InputToken x =
     encode_struct
       [(''tokenAddress'', encode_string (InputToken.TokenAddress x)),
        (''amount'', encode_string (InputToken.Amount x))]"

definition InputToken_fields :: "InputToken field list" where
  "InputToken_fields =
     [(''tokenAddress'', field InputToken.TokenAddress InputToken.TokenAddress_update decode_string),
      (''amount'', field InputToken.Amount InputToken.Amount_update decode_string)]"

definition decode_InputToken :: "json \<Rightarrow> InputToken \<Rightarrow> error + InputToken" where
  "decode_InputToken = decode_struct InputToken_fields"

definition wf_InputToken :: "InputToken \<Rightarrow> bool" where
  "wf_InputToken x =
     (ValidString (InputToken.TokenAddress x)
      \<and> ValidString (InputToken.Amount x))"

definition zero_OutputToken :: OutputToken where
  "zero_OutputToken =
     \<lparr>OutputToken.TokenAddress = [],
      OutputToken.Proportion = 0\<rparr>"

definition encode_OutputToken :: "strconv \<Rightarrow> OutputToken \<Rightarrow> error + json" where
  "encode_OutputToken sc x =
     encode_struct
       [(''tokenAddress'', encode_string (OutputToken.TokenAddress x)),
        (''proportion'', encode_float64 sc (OutputToken.Proportion x))]"

definition OutputToken_fields :: "strconv \<Rightarrow> OutputToken field list" where
  "OutputToken_fields sc =
     [(''tokenAddress'', field OutputToken.TokenAddress OutputToken.TokenAddress_update decode_string),
      (''proportion'', field OutputToken.Proportion OutputToken.Proportion_update (decode_float64 sc))]"

definition decode_OutputToken :: "strconv \<Rightarrow> json \<Rightarrow> OutputToken \<Rightarrow> error + OutputToken" where
  "decode_OutputToken sc = decode_struct (OutputToken_fields sc)"

definition wf_OutputToken :: "OutputToken \<Rightarrow> bool" where
  "wf_OutputToken x =
     (ValidString (OutputToken.TokenAddress x)
      \<and> float64_finite (OutputToken.Proportion x))"

definition zero_QuoteRequest :: QuoteRequest where
  "zero_QuoteRequest =
     \<lparr>QuoteRequest.ChainId = 0,
      QuoteRequest.InputTokens = None,
      QuoteRequest.OutputTokens = None,
      QuoteRequest.GasPrice = 0,
      QuoteRequest.UserAddr = [],
      QuoteRequest.SlippageLimitPercent = 0,
      QuoteRequest.SourceBlacklist = None,
      QuoteRequest.SourceWhitelist = None,
      QuoteRequest.PoolBlacklist = None,
      QuoteRequest.PathViz = False,
      QuoteRequest.ReferralCode = 0,
      QuoteRequest.Compact = False,
      QuoteRequest.LikeAsset = False,
      QuoteRequest.DisableRFQs = False,
      QuoteRequest.Simple = False\<rparr>"

definition encode_QuoteRequest :: "strconv \<Rightarrow> QuoteRequest \<Rightarrow> error + json" where
  "encode_QuoteRequest sc x =
     encode_struct
       [(''chainId'', encode_int64 (QuoteRequest.ChainId x)),
        (''inputTokens'', (encode_slice encode_InputToken) (QuoteRequest.InputTokens x)),
        (''outputTokens'', (encode_slice (encode_OutputToken sc)) (QuoteRequest.OutputTokens x)),
        (''gasPrice'', encode_float64 sc (QuoteRequest.GasPrice x)),
        (''userAddr'', encode_string (QuoteRequest.UserAddr x)),
        (''slippageLimitPercent'', encode_float64 sc (QuoteRequest.SlippageLimitPercent x)),
        (''sourceBlacklist'', (encode_slice encode_string) (QuoteRequest.SourceBlacklist x)),
        (''sourceWhitelist'', (encode_slice encode_string) (QuoteRequest.SourceWhitelist x)),
        (''poolBlacklist'', (encode_slice encode_string) (QuoteRequest.PoolBlacklist x)),
        (''pathViz'', encode_bool (QuoteRequest.PathViz x)),
        (''referralCode'', encode_int64 (QuoteRequest.ReferralCode x)),
        (''compact'', encode_bool (QuoteRequest.Compact x)),
        (''likeAsset'', encode_bool (QuoteRequest.LikeAsset x)),
        (''disableRFQs'', encode_bool (QuoteRequest.DisableRFQs x)),
        (''simple'', encode_bool (QuoteRequest.Simple x))]"

definition QuoteRequest_fields :: "strconv \<Rightarrow> QuoteRequest field list" where
  "QuoteRequest_fields sc =
     [(''chainId'', field QuoteRequest.ChainId QuoteRequest.ChainId_update decode_int64),
      (''inputTokens'', field QuoteRequest.InputTokens QuoteRequest.InputTokens_update (decode_slice decode_InputToken zero_InputToken)),
      (''outputTokens'', field QuoteRequest.OutputTokens QuoteRequest.OutputTokens_update (decode_slice (decode_OutputToken sc) zero_OutputToken)),
      (''gasPrice'', field QuoteRequest.GasPrice QuoteRequest.GasPrice_update (decode_float64 sc)),
      (''userAddr'', field QuoteRequest.UserAddr QuoteRequest.UserAddr_update decode_string),
      (''slippageLimitPercent'', field QuoteRequest.SlippageLimitPercent QuoteRequest.SlippageLimitPercent_update (decode_float64 sc)),
      (''sourceBlacklist'', field QuoteRequest.SourceBlacklist QuoteRequest.SourceBlacklist_update (decode_slice decode_string [])),
      (''sourceWhitelist'', field QuoteRequest.SourceWhitelist QuoteRequest.SourceWhitelist_update (decode_slice decode_string [])),
      (''poolBlacklist'', field QuoteRequest.PoolBlacklist QuoteRequest.PoolBlacklist_update (decode_slice decode_string [])),
      (''pathViz'', field QuoteRequest.PathViz QuoteRequest.PathViz_update decode_bool),
      (''referralCode'', field QuoteRequest.ReferralCode QuoteRequest.ReferralCode_update decode_int64),
      (''compact'', field QuoteRequest.Compact QuoteRequest.Compact_update decode_bool),
      (''likeAsset'', field QuoteRequest.LikeAsset QuoteRequest.LikeAsset_update decode_bool),
      (''disableRFQs'', field QuoteRequest.DisableRFQs QuoteRequest.DisableRFQs_update decode_bool),
      (''simple'', field QuoteRequest.Simple QuoteRequest.Simple_update decode_bool)]"

definition decode_QuoteRequest :: "strconv \<Rightarrow> json \<Rightarrow> QuoteRequest \<Rightarrow> error + QuoteRequest" where
  "decode_QuoteRequest sc = decode_struct (QuoteRequest_fields sc)"

definition wf_QuoteRequest :: "QuoteRequest \<Rightarrow> bool" where
  "wf_QuoteRequest x =
     (slice_all wf_InputToken (QuoteRequest.InputTokens x)
      \<and> slice_all wf_OutputToken (QuoteRequest.OutputTokens x)
      \<and> float64_finite (QuoteRequest.GasPrice x)
      \<and> ValidString (QuoteRequest.UserAddr x)
      \<and> float64_finite (QuoteRequest.SlippageLimitPercent x)
      \<and> slice_all ValidString (QuoteRequest.SourceBlacklist x)
      \<and> slice_all ValidString (QuoteRequest.SourceWhitelist x)
      \<and> slice_all ValidString (QuoteRequest.PoolBlacklist x))"

definition zero_AssembleRequest :: AssembleRequest where
  "zero_AssembleRequest =
     \<lparr>AssembleRequest.UserAddr = [],
      AssembleRequest.PathId = [],
      AssembleRequest.Simulate = False\<rparr>"

definition encode_AssembleRequest :: "AssembleRequest \<Rightarrow> error + json" where
  "encode_AssembleRequest x =
     encode_struct
       [(''userAddr'', encode_string (AssembleRequest.UserAddr x)),
        (''pathId'', encode_string (AssembleRequest.PathId x)),
        (''simulate'', encode_bool (AssembleRequest.Simulate x))]"

definition AssembleRequest_fields :: "AssembleRequest field list" where
  "AssembleRequest_fields =
     [(''userAddr'', field AssembleRequest.UserAddr AssembleRequest.UserAddr_update decode_string),
      (''pathId'', field AssembleRequest.PathId AssembleRequest.PathId_update decode_string),
      (''simulate'', field AssembleRequest.Simulate AssembleRequest.Simulate_update decode_bool)]"

definition decode_AssembleRequest :: "json \<Rightarrow> AssembleRequest \<Rightarrow> error + AssembleRequest" where
  "decode_AssembleRequest = decode_struct AssembleRequest_fields"

definition wf_AssembleRequest :: "AssembleRequest \<Rightarrow> bool" where
  "wf_AssembleRequest x =
     (ValidString (AssembleRequest.UserAddr x)
      \<and> ValidString (AssembleRequest.PathId x))"

text \<open>
  A stub vendor for closed instances of the theorems below. It accepts every request and
  answers with the given status code and body. Its codec writes every request as the
  text \<open>{}\<close> and decodes only the text \<open>{}\<close>, an object without keys: as package
  encoding/json documents, that leaves every field of the variable as it was.
\<close>

definition stub_decode :: "body \<Rightarrow> 'a \<Rightarrow> error + 'a" where
  "stub_decode b v =
     (case b of Stream bs e \<Rightarrow>
        if bs = ''{}'' then Inr v else Inl (Error ''invalid character'' None))"

definition stub_odos_env :: "int \<Rightarrow> string \<Rightarrow> odos_env" where
  "stub_odos_env status bs =
     \<lparr>NewRequest_err = (\<lambda>m url. None),
      Do = (\<lambda>req. Inr \<lparr>StatusCode = status, Body = Stream bs None\<rparr>),
      Unix_now = 1700000000,
      Marshal_QuoteRequest = (\<lambda>req. Inr ''{}''),
      Marshal_AssembleRequest = (\<lambda>req. Inr ''{}''),
      Decode_PriceResponse = stub_decode,
      Decode_QuoteResponse = stub_decode,
      Unmarshal_AssembleResponse = (\<lambda>bs. stub_decode (Stream bs None))\<rparr>"

definition stub_OdosClient :: OdosClient where
  "stub_OdosClient = \<lparr>httpClient = Some 0, baseURL = odos_baseURL\<rparr>"


definition stub_odos_env_marshal :: odos_env where
  "stub_odos_env_marshal =
     (stub_odos_env 200 ''{}'')
       \<lparr>Marshal_QuoteRequest :=
          (\<lambda>req. case req of
                    None \<Rightarrow> Inr ''null''
                  | Some q \<Rightarrow>
                      (case encode_QuoteRequest stub_strconv q of
                         Inl e \<Rightarrow> Inl e
                       | Inr j \<Rightarrow> Inr ''{}''))\<rparr>"

definition nan_QuoteRequest :: QuoteRequest where
  "nan_QuoteRequest = zero_QuoteRequest\<lparr>QuoteRequest.GasPrice := 0x7FF8000000000001\<rparr>"

text \<open>
  The first request of \<open>TestQuote\<close> and the first call of \<open>TestAssemble\<close> in the tests of
  the package. The floats are the bit patterns of 6.27, 0.1 and 1.
\<close>

definition test_QuoteRequest :: QuoteRequest where
  "test_QuoteRequest =
     \<lparr>QuoteRequest.ChainId = 1,
      QuoteRequest.InputTokens =
        Some [\<lparr>InputToken.TokenAddress = ''0x6B175474E89094C44Da98b954EedeAC495271d0F'',
               InputToken.Amount = ''1000000000000000000''\<rparr>],
      QuoteRequest.OutputTokens =
        Some [\<lparr>OutputToken.TokenAddress = ''0x9D39A5DE30e57443BfF2A8307A4256c8797A3497'',
               OutputToken.Proportion = 0x3FF0000000000000\<rparr>],
      QuoteRequest.GasPrice = 0x4019147AE147AE14,
      QuoteRequest.UserAddr = ''0x0000000000000000000000000000000000000000'',
      QuoteRequest.SlippageLimitPercent = 0x3FB999999999999A,
      QuoteRequest.SourceBlacklist = Some [],
      QuoteRequest.SourceWhitelist = Some [],
      QuoteRequest.PoolBlacklist = Some [],
      QuoteRequest.PathViz = True,
      QuoteRequest.ReferralCode = 1,
      QuoteRequest.Compact = True,
      QuoteRequest.LikeAsset = True,
      QuoteRequest.DisableRFQs = False,
      QuoteRequest.Simple = False\<rparr>"

definition test_AssembleRequest :: AssembleRequest where
  "test_AssembleRequest =
     \<lparr>AssembleRequest.UserAddr = ''0x163A5EC5e9C32238d075E2D829fE9fA87451e3b7'',
      AssembleRequest.PathId = ''9c2294c5e076d888e149c764f832738b'',
      AssembleRequest.Simulate = True\<rparr>"

section \<open>Package kyberswap\<close>

definition kyberswap_baseURL :: string where
  "kyberswap_baseURL = ''https://aggregator-api.kyberswap.com''"

record ExtraFee =
  FeeAmount :: string
  ChargeFeeBy :: string
  IsInBps :: bool
  FeeReceiver :: string

record OuterPoolExtra =
  BlockNumber :: int64
  TokenInIndex :: go_int
  TokenOutIndex :: go_int
  Underlying :: bool
  TokenInIsNative :: bool
  TokenOutIsNative :: bool

record Route =
  Pool :: string
  TokenIn :: string
  TokenOut :: string
  LimitReturnAmount :: string
  SwapAmount :: string
  AmountOut :: string
  Exchange :: string
  PoolLength :: go_int
  PoolType :: string
  PoolExtra :: OuterPoolExtra
  Extra :: any

record RouteSummary =
  TokenIn :: string
  AmountIn :: string
  AmountInUsd :: string
  TokenInMarketPriceAvailable :: bool
  TokenOut :: string
  AmountOut :: string
  AmountOutUsd :: string
  TokenOutMarketPriceAvailable :: bool
  Gas :: string
  GasPrice :: string
  GasUsd :: string
  ExtraFee :: ExtraFee
  Route :: "Route slice slice"

definition zero_RouteSummary :: RouteSummary where
  "zero_RouteSummary =
     \<lparr>TokenIn = [], AmountIn = [], AmountInUsd = [], TokenInMarketPriceAvailable = False,
      TokenOut = [], AmountOut = [], AmountOutUsd = [], TokenOutMarketPriceAvailable = False,
      Gas = [], GasPrice = [], GasUsd = [],
      ExtraFee = \<lparr>FeeAmount = [], ChargeFeeBy = [], IsInBps = False, FeeReceiver = []\<rparr>,
      Route = None\<rparr>"

text \<open>The anonymous struct of \<open>RouteResponse.Data\<close>.\<close>

record RouteResponse_Data =
  RouteSummary :: RouteSummary
  RouterAddress :: string

record RouteResponse =
  Code :: int64
  Message :: string
  Data :: RouteResponse_Data
  RequestId :: string


record BuildRouteRequest =
  RouteSummary :: RouteSummary
  Sender :: string
  Recipient :: string
  Deadline :: int64
  SlippageTolerance :: int64

record OutputChange =
  Amount :: string
  Percent :: float64
  Level :: go_int

text \<open>The anonymous struct of \<open>BuildRouteResponse.Data\<close>.\<close>

record BuildRouteResponse_Data =
  AmountIn :: string
  AmountInUsd :: string
  AmountOut :: string
  AmountOutUsd :: string
  Gas :: string
  GasUsd :: string
  OutputChange :: OutputChange
  Data :: string
  RouterAddress :: string
  TransactionValue :: string

record BuildRouteResponse =
  Code :: int64
  Message :: string
  Data :: BuildRouteResponse_Data
  RequestId :: string

definition zero_BuildRouteResponse :: BuildRouteResponse where
  "zero_BuildRouteResponse =
     \<lparr>Code = 0, Message = [],
      Data = \<lparr>AmountIn = [], AmountInUsd = [], AmountOut = [], AmountOutUsd = [], Gas = [],
        GasUsd = [], OutputChange = \<lparr>Amount = [], Percent = 0, Level = 0\<rparr>,
        BuildRouteResponse_Data.Data = [], RouterAddress = [], TransactionValue = []\<rparr>,
      RequestId = []\<rparr>"

record KyberSwapClient =
  httpClient :: ptr
  baseURL :: string

text \<open>
  The environment of the KyberSwap methods: the network, \<open>json.Marshal\<close> on the build
  request and \<open>json.NewDecoder(resp.Body).Decode\<close> into the two response types.
\<close>

record kyberswap_env = net +
  Marshal_BuildRouteRequest :: "BuildRouteRequest \<Rightarrow> error + string"
  Decode_RouteResponse :: "body \<Rightarrow> RouteResponse \<Rightarrow> error + RouteResponse"
  Decode_BuildRouteResponse :: "body \<Rightarrow> BuildRouteResponse \<Rightarrow> error + BuildRouteResponse"

definition kyberswap_NewClient ::
  "KyberSwapClient store \<Rightarrow> string \<Rightarrow> string \<Rightarrow> ptr \<times> KyberSwapClient store" where
  "kyberswap_NewClient s baseURL0 chain0 =
     (let baseURL1 = (if baseURL0 = [] then kyberswap_baseURL else baseURL0);
          chain1 = (if chain0 = [] then ''ethereum'' else chain0);
          (hc, hcs) = alloc (http_Clients s) \<lparr>Timeout = 10 * Second\<rparr>;
          (c, cs) = alloc (clients s) \<lparr>httpClient = hc, baseURL = baseURL1 @ ''/'' @ chain1\<rparr>
      in (c, s\<lparr>http_Clients := hcs, clients := cs\<rparr>))"


definition BuildRoute ::
  "kyberswap_env \<Rightarrow> KyberSwapClient \<Rightarrow> RouteSummary \<Rightarrow> string \<Rightarrow> string
     \<Rightarrow> BuildRouteResponse outcome" where
  "BuildRoute env c routeSummary sender recipient =
     (let reqBody = \<lparr>RouteSummary = routeSummary, Sender = sender, Recipient = recipient,
                      Deadline = Unix_now env + 20 * 3600, SlippageTolerance = 10\<rparr> in
      case Marshal_BuildRouteRequest env reqBody of
        Inl e \<Rightarrow> fail [] (Errorf_w ''error marshaling request: '' e)
      | Inr jsonBody \<Rightarrow>
          (let url = baseURL c @ ''/api/v1/route/build'' in
           case NewRequest env ''POST'' url (Some jsonBody) of
             Inl e \<Rightarrow> fail [] (Errorf_w ''error creating request: '' e)
           | Inr req0 \<Rightarrow>
               (let req = Header_Set req0 ''Content-Type'' ''application/json'' in
                case Do env req of
                  Inl e \<Rightarrow> fail [req] (Errorf_w ''error sending request: '' e)
                | Inr resp \<Rightarrow>
                    if StatusCode resp \<noteq> StatusOK then
                      (case ReadAll (Body resp) of
                         Inl e \<Rightarrow>
                           fail [req]
                             (Errorf_w (''status code '' @ fmt_d (StatusCode resp)
                                        @ '', failed to read error response: '') e)
                       | Inr body \<Rightarrow>
                           fail [req]
                             (Error (''unexpected status code: '' @ fmt_d (StatusCode resp)
                                     @ '': '' @ body) None))
                    else
                      (case Decode_BuildRouteResponse env (Body resp) zero_BuildRouteResponse of
                         Inl e \<Rightarrow> fail [req] (Errorf_w ''error decoding response: '' e)
                       | Inr buildResp \<Rightarrow> succeed [req] buildResp))))"

text \<open>
  \<open>WithTimeout\<close> writes through two pointers: the receiver and its \<open>httpClient\<close>.
  Dereferencing nil panics, which is \<open>None\<close>. Otherwise it returns the receiver and the
  store in which the one \<open>http.Client\<close> cell has its \<open>Timeout\<close> replaced.
\<close>

definition WithTimeout ::
  "KyberSwapClient store \<Rightarrow> ptr \<Rightarrow> Duration \<Rightarrow> (ptr \<times> KyberSwapClient store) option" where
  "WithTimeout s c timeout =
     (case load (clients s) c of
        None \<Rightarrow> None
      | Some k \<Rightarrow>
          (case httpClient k of
             None \<Rightarrow> None
           | Some i \<Rightarrow>
               if i < length (http_Clients s) then
                 Some (c, s\<lparr>http_Clients :=
                            (http_Clients s)[i := (http_Clients s ! i)\<lparr>Timeout := timeout\<rparr>]\<rparr>)
               else None))"

text \<open>The codec on the KyberSwap build request and the structs it contains.\<close>

definition zero_ExtraFee :: ExtraFee where
  "zero_ExtraFee =
     \<lparr>ExtraFee.FeeAmount = [],
      ExtraFee.ChargeFeeBy = [],
      ExtraFee.IsInBps = False,
      ExtraFee.FeeReceiver = []\<rparr>"

definition encode_ExtraFee :: "ExtraFee \<Rightarrow> error + json" where
  "encode_ExtraFee x =
     encode_struct
       [(''feeAmount'', encode_string (ExtraFee.FeeAmount x)),
        (''chargeFeeBy'', encode_string (ExtraFee.ChargeFeeBy x)),
        (''isInBps'', encode_bool (ExtraFee.IsInBps x)),
        (''feeReceiver'', encode_string (ExtraFee.FeeReceiver x))]"

definition ExtraFee_fields :: "ExtraFee field list" where
  "ExtraFee_fields =
     [(''feeAmount'', field ExtraFee.FeeAmount ExtraFee.FeeAmount_update decode_string),
      (''chargeFeeBy'', field ExtraFee.ChargeFeeBy ExtraFee.ChargeFeeBy_update decode_string),
      (''isInBps'', field ExtraFee.IsInBps ExtraFee.IsInBps_update decode_bool),
      (''feeReceiver'', field ExtraFee.FeeReceiver ExtraFee.FeeReceiver_update decode_string)]"

definition decode_ExtraFee :: "json \<Rightarrow> ExtraFee \<Rightarrow> error + ExtraFee" where
  "decode_ExtraFee = decode_struct ExtraFee_fields"

definition wf_ExtraFee :: "ExtraFee \<Rightarrow> bool" where
  "wf_ExtraFee x =
     (ValidString (ExtraFee.FeeAmount x)
      \<and> ValidString (ExtraFee.ChargeFeeBy x)
      \<and> ValidString (ExtraFee.FeeReceiver x))"

definition zero_OuterPoolExtra :: OuterPoolExtra where
  "zero_OuterPoolExtra =
     \<lparr>OuterPoolExtra.BlockNumber = 0,
      OuterPoolExtra.TokenInIndex = 0,
      OuterPoolExtra.TokenOutIndex = 0,
      OuterPoolExtra.Underlying = False,
      OuterPoolExtra.TokenInIsNative = False,
      OuterPoolExtra.TokenOutIsNative = False\<rparr>"

definition encode_OuterPoolExtra :: "OuterPoolExtra \<Rightarrow> error + json" where
  "encode_OuterPoolExtra x =
     encode_struct
       [(''blockNumber'', encode_int64 (OuterPoolExtra.BlockNumber x)),
        (''tokenInIndex'', encode_int64 (OuterPoolExtra.TokenInIndex x)),
        (''tokenOutIndex'', encode_int64 (OuterPoolExtra.TokenOutIndex x)),
        (''underlying'', encode_bool (OuterPoolExtra.Underlying x)),
        (''TokenInIsNative'', encode_bool (OuterPoolExtra.TokenInIsNative x)),
        (''TokenOutIsNative'', encode_bool (OuterPoolExtra.TokenOutIsNative x))]"

definition OuterPoolExtra_fields :: "OuterPoolExtra field list" where
  "OuterPoolExtra_fields =
     [(''blockNumber'', field OuterPoolExtra.BlockNumber OuterPoolExtra.BlockNumber_update decode_int64),
      (''tokenInIndex'', field OuterPoolExtra.TokenInIndex OuterPoolExtra.TokenInIndex_update decode_int64),
      (''tokenOutIndex'', field OuterPoolExtra.TokenOutIndex OuterPoolExtra.TokenOutIndex_update decode_int64),
      (''underlying'', field OuterPoolExtra.Underlying OuterPoolExtra.Underlying_update decode_bool),
      (''TokenInIsNative'', field OuterPoolExtra.TokenInIsNative OuterPoolExtra.TokenInIsNative_update decode_bool),
      (''TokenOutIsNative'', field OuterPoolExtra.TokenOutIsNative OuterPoolExtra.TokenOutIsNative_update decode_bool)]"

definition decode_OuterPoolExtra :: "json \<Rightarrow> OuterPoolExtra \<Rightarrow> error + OuterPoolExtra" where
  "decode_OuterPoolExtra = decode_struct OuterPoolExtra_fields"

definition zero_Route :: Route where
  "zero_Route =
     \<lparr>Route.Pool = [],
      Route.TokenIn = [],
      Route.TokenOut = [],
      Route.LimitReturnAmount = [],
      Route.SwapAmount = [],
      Route.AmountOut = [],
      Route.Exchange = [],
      Route.PoolLength = 0,
      Route.PoolType = [],
      Route.PoolExtra = zero_OuterPoolExtra,
      Route.Extra = any_nil\<rparr>"

definition encode_Route :: "strconv \<Rightarrow> Route \<Rightarrow> error + json" where
  "encode_Route sc x =
     encode_struct
       [(''pool'', encode_string (Route.Pool x)),
        (''tokenIn'', encode_string (Route.TokenIn x)),
        (''tokenOut'', encode_string (Route.TokenOut x)),
        (''limitReturnAmount'', encode_string (Route.LimitReturnAmount x)),
        (''swapAmount'', encode_string (Route.SwapAmount x)),
        (''amountOut'', encode_string (Route.AmountOut x)),
        (''exchange'', encode_string (Route.Exchange x)),
        (''poolLength'', encode_int64 (Route.PoolLength x)),
        (''poolType'', encode_string (Route.PoolType x)),
        (''poolExtra'', encode_OuterPoolExtra (Route.PoolExtra x)),
        (''extra'', encode_any sc (Route.Extra x))]"

definition Route_fields :: "strconv \<Rightarrow> Route field list" where
  "Route_fields sc =
     [(''pool'', field Route.Pool Route.Pool_update decode_string),
      (''tokenIn'', field Route.TokenIn Route.TokenIn_update decode_string),
      (''tokenOut'', field Route.TokenOut Route.TokenOut_update decode_string),
      (''limitReturnAmount'', field Route.LimitReturnAmount Route.LimitReturnAmount_update decode_string),
      (''swapAmount'', field Route.SwapAmount Route.SwapAmount_update decode_string),
      (''amountOut'', field Route.AmountOut Route.AmountOut_update decode_string),
      (''exchange'', field Route.Exchange Route.Exchange_update decode_string),
      (''poolLength'', field Route.PoolLength Route.PoolLength_update decode_int64),
      (''poolType'', field Route.PoolType Route.PoolType_update decode_string),
      (''poolExtra'', field Route.PoolExtra Route.PoolExtra_update decode_OuterPoolExtra),
      (''extra'', field Route.Extra Route.Extra_update (decode_any sc))]"

definition decode_Route :: "strconv \<Rightarrow> json \<Rightarrow> Route \<Rightarrow> error + Route" where
  "decode_Route sc = decode_struct (Route_fields sc)"

definition wf_Route :: "Route \<Rightarrow> bool" where
  "wf_Route x =
     (ValidString (Route.Pool x)
      \<and> ValidString (Route.TokenIn x)
      \<and> ValidString (Route.TokenOut x)
      \<and> ValidString (Route.LimitReturnAmount x)
      \<and> ValidString (Route.SwapAmount x)
      \<and> ValidString (Route.AmountOut x)
      \<and> ValidString (Route.Exchange x)
      \<and> ValidString (Route.PoolType x)
      \<and> wf_any (Route.Extra x))"

definition encode_RouteSummary :: "strconv \<Rightarrow> RouteSummary \<Rightarrow> error + json" where
  "encode_RouteSummary sc x =
     encode_struct
       [(''tokenIn'', encode_string (RouteSummary.TokenIn x)),
        (''amountIn'', encode_string (RouteSummary.AmountIn x)),
        (''amountInUsd'', encode_string (RouteSummary.AmountInUsd x)),
        (''tokenInMarketPriceAvailable'', encode_bool (RouteSummary.TokenInMarketPriceAvailable x)),
        (''tokenOut'', encode_string (RouteSummary.TokenOut x)),
        (''amountOut'', encode_string (RouteSummary.AmountOut x)),
        (''amountOutUsd'', encode_string (RouteSummary.AmountOutUsd x)),
        (''tokenOutMarketPriceAvailable'', encode_bool (RouteSummary.TokenOutMarketPriceAvailable x)),
        (''gas'', encode_string (RouteSummary.Gas x)),
        (''gasPrice'', encode_string (RouteSummary.GasPrice x)),
        (''gasUsd'', encode_string (RouteSummary.GasUsd x)),
        (''extraFee'', encode_ExtraFee (RouteSummary.ExtraFee x)),
        (''route'', (encode_slice (encode_slice (encode_Route sc))) (RouteSummary.Route x))]"

definition RouteSummary_fields :: "strconv \<Rightarrow> RouteSummary field list" where
  "RouteSummary_fields sc =
     [(''tokenIn'', field RouteSummary.TokenIn RouteSummary.TokenIn_update decode_string),
      (''amountIn'', field RouteSummary.AmountIn RouteSummary.AmountIn_update decode_string),
      (''amountInUsd'', field RouteSummary.AmountInUsd RouteSummary.AmountInUsd_update decode_string),
      (''tokenInMarketPriceAvailable'', field RouteSummary.TokenInMarketPriceAvailable RouteSummary.TokenInMarketPriceAvailable_update decode_bool),
      (''tokenOut'', field RouteSummary.TokenOut RouteSummary.TokenOut_update decode_string),
      (''amountOut'', field RouteSummary.AmountOut RouteSummary.AmountOut_update decode_string),
      (''amountOutUsd'', field RouteSummary.AmountOutUsd RouteSummary.AmountOutUsd_update decode_string),
      (''tokenOutMarketPriceAvailable'', field RouteSummary.TokenOutMarketPriceAvailable RouteSummary.TokenOutMarketPriceAvailable_update decode_bool),
      (''gas'', field RouteSummary.Gas RouteSummary.Gas_update decode_string),
      (''gasPrice'', field RouteSummary.GasPrice RouteSummary.GasPrice_update decode_string),
      (''gasUsd'', field RouteSummary.GasUsd RouteSummary.GasUsd_update decode_string),
      (''extraFee'', field RouteSummary.ExtraFee RouteSummary.ExtraFee_update decode_ExtraFee),
      (''route'', field RouteSummary.Route RouteSummary.Route_update (decode_slice (decode_slice (decode_Route sc) zero_Route) None))]"

definition decode_RouteSummary :: "strconv \<Rightarrow> json \<Rightarrow> RouteSummary \<Rightarrow> error + RouteSummary" where
  "decode_RouteSummary sc = decode_struct (RouteSummary_fields sc)"

definition wf_RouteSummary :: "RouteSummary \<Rightarrow> bool" where
  "wf_RouteSummary x =
     (ValidString (RouteSummary.TokenIn x)
      \<and> ValidString (RouteSummary.AmountIn x)
      \<and> ValidString (RouteSummary.AmountInUsd x)
      \<and> ValidString (RouteSummary.TokenOut x)
      \<and> ValidString (RouteSummary.AmountOut x)
      \<and> ValidString (RouteSummary.AmountOutUsd x)
      \<and> ValidString (RouteSummary.Gas x)
      \<and> ValidString (RouteSummary.GasPrice x)
      \<and> ValidString (RouteSummary.GasUsd x)
      \<and> wf_ExtraFee (RouteSummary.ExtraFee x)
      \<and> slice_all (slice_all wf_Route) (RouteSummary.Route x))"

definition zero_BuildRouteRequest :: BuildRouteRequest where
  "zero_BuildRouteRequest =
     \<lparr>BuildRouteRequest.RouteSummary = zero_RouteSummary,
      BuildRouteRequest.Sender = [],
      BuildRouteRequest.Recipient = [],
      BuildRouteRequest.Deadline = 0,
      BuildRouteRequest.SlippageTolerance = 0\<rparr>"

definition encode_BuildRouteRequest :: "strconv \<Rightarrow> BuildRouteRequest \<Rightarrow> error + json" where
  "encode_BuildRouteRequest sc x =
     encode_struct
       [(''routeSummary'', (encode_RouteSummary sc) (BuildRouteRequest.RouteSummary x)),
        (''sender'', encode_string (BuildRouteRequest.Sender x)),
        (''recipient'', encode_string (BuildRouteRequest.Recipient x)),
        (''deadline'', encode_int64 (BuildRouteRequest.Deadline x)),
        (''slippageTolerance'', encode_int64 (BuildRouteRequest.SlippageTolerance x))]"

definition BuildRouteRequest_fields :: "strconv \<Rightarrow> BuildRouteRequest field list" where
  "BuildRouteRequest_fields sc =
     [(''routeSummary'', field BuildRouteRequest.RouteSummary BuildRouteRequest.RouteSummary_update (decode_RouteSummary sc)),
      (''sender'', field BuildRouteRequest.Sender BuildRouteRequest.Sender_update decode_string),
      (''recipient'', field BuildRouteRequest.Recipient BuildRouteRequest.Recipient_update decode_string),
      (''deadline'', field BuildRouteRequest.Deadline BuildRouteRequest.Deadline_update decode_int64),
      (''slippageTolerance'', field BuildRouteRequest.SlippageTolerance BuildRouteRequest.SlippageTolerance_update decode_int64)]"

definition decode_BuildRouteRequest :: "strconv \<Rightarrow> json \<Rightarrow> BuildRouteRequest \<Rightarrow> error + BuildRouteRequest" where
  "decode_BuildRouteRequest sc = decode_struct (BuildRouteRequest_fields sc)"

definition wf_BuildRouteRequest :: "BuildRouteRequest \<Rightarrow> bool" where
  "wf_BuildRouteRequest x =
     (wf_RouteSummary (BuildRouteRequest.RouteSummary x)
      \<and> ValidString (BuildRouteRequest.Sender x)
      \<and> ValidString (BuildRouteRequest.Recipient x))"

definition stub_kyberswap_env :: "int \<Rightarrow> string \<Rightarrow> kyberswap_env" where
  "stub_kyberswap_env status bs =
     \<lparr>NewRequest_err = (\<lambda>m url. None),
      Do = (\<lambda>req. Inr \<lparr>StatusCode = status, Body = Stream bs None\<rparr>),
      Unix_now = 1700000000,
      Marshal_BuildRouteRequest = (\<lambda>req. Inr ''{}''),
      Decode_RouteResponse = stub_decode,
      Decode_BuildRouteResponse = stub_decode\<rparr>"

definition stub_KyberSwapClient :: KyberSwapClient where
  "stub_KyberSwapClient = \<lparr>httpClient = Some 0, baseURL = kyberswap_baseURL @ ''/ethereum''\<rparr>"

text \<open>
  A build request as \<open>BuildRoute\<close> makes it from a decoded route: one route segment whose
  \<open>Extra\<close> is a map, and the sender of the package's test. The float is the bit pattern
  of 0.003.
\<close>

definition example_BuildRouteRequest :: BuildRouteRequest where
  "example_BuildRouteRequest =
     \<lparr>BuildRouteRequest.RouteSummary =
        zero_RouteSummary
          \<lparr>RouteSummary.TokenIn := ''0xdac17f958d2ee523a2206206994597c13d831ec7'',
           RouteSummary.AmountIn := ''100'',
           RouteSummary.Route :=
             Some [Some [zero_Route
                           \<lparr>Route.Pool := ''0xpool'',
                            Route.PoolLength := 2,
                            Route.Extra :=
                              any_map [(''fee'', any_float64 0x3F689374BC6A7EFA),
                                       (''ticks'', any_slice [any_bool True, any_nil]),
                                       (''type'', any_string ''v3'')]\<rparr>],
                   None]\<rparr>,
      BuildRouteRequest.Sender = ''0xd46B96d15ffF9b2B17e9c788086f3159bD0e8355'',
      BuildRouteRequest.Recipient = ''0xd46B96d15ffF9b2B17e9c788086f3159bD0e8355'',
      BuildRouteRequest.Deadline = 1700072000,
      BuildRouteRequest.SlippageTolerance = 10\<rparr>"

text \<open>A stub codec that writes a build request as its deadline and slippage tolerance.\<close>

definition stub_marshal_deadline :: "BuildRouteRequest \<Rightarrow> error + string" where
  "stub_marshal_deadline req =
     Inr (fmt_d (sint (Deadline req)) @ '','' @ fmt_d (sint (SlippageTolerance req)))"

section \<open>Auxiliary facts\<close>






lemma GetTokenPrice_outcome:
  assumes "sent (GetTokenPrice env c chainID tokenAddr) = [req]" and "Do env req = Inr resp"
  shows "GetTokenPrice env c chainID tokenAddr =
     (case Decode_PriceResponse env (Body resp) zero_PriceResponse of
        Inl e \<Rightarrow> fail [req] (Errorf_w ''failed to decode response: '' e)
      | Inr priceResp \<Rightarrow> succeed [req] priceResp)"
  using assms
  by (auto simp: GetTokenPrice_def Client_Get_def NewRequest_def fail_def succeed_def Let_def
      split: sum.splits option.splits if_splits)

lemma Quote_outcome:
  assumes "sent (Quote env c r) = [req]" and "Do env req = Inr resp"
  shows "Quote env c r =
     (case Decode_QuoteResponse env (Body resp) zero_QuoteResponse of
        Inl e \<Rightarrow> fail [req] (Errorf_w ''failed to decode response: '' e)
      | Inr quoteResp \<Rightarrow> succeed [req] quoteResp)"
  using assms
  by (auto simp: Quote_def NewRequest_def fail_def succeed_def Let_def
      split: sum.splits option.splits if_splits)

lemma GetTokenPrice_any_status:
  "GetTokenPrice (env\<lparr>Do := \<lambda>r. case Do env r of Inl e \<Rightarrow> Inl e
                                   | Inr resp \<Rightarrow> Inr (resp\<lparr>StatusCode := st\<rparr>)\<rparr>) c chainID tokenAddr
     = GetTokenPrice env c chainID tokenAddr"
  by (auto simp: GetTokenPrice_def Client_Get_def NewRequest_def fail_def succeed_def Let_def
      split: sum.splits option.splits if_splits)

lemma Quote_any_status:
  "Quote (env\<lparr>Do := \<lambda>r. case Do env r of Inl e \<Rightarrow> Inl e
                           | Inr resp \<Rightarrow> Inr (resp\<lparr>StatusCode := st\<rparr>)\<rparr>) c r
     = Quote env c r"
  by (auto simp: Quote_def NewRequest_def fail_def succeed_def Let_def
      split: sum.splits option.splits if_splits)

lemma odos_set_headers_Header:
  "Header (odos_set_headers r) ''Content-Type'' = Some ''application/json''
   \<and> Header (odos_set_headers r) ''Accept'' = Some ''*/*''
   \<and> Header (odos_set_headers r) ''Origin'' = Some ''https://app.odos.xyz''
   \<and> Header (odos_set_headers r) ''Referer'' = Some ''https://app.odos.xyz/''"
  by (simp add: odos_set_headers_def Header_Set_def)

lemma Quote_sent:
  "sent (Quote env c r) = [] \<or> (\<exists>req0. sent (Quote env c r) = [odos_set_headers req0])"
  by (auto simp: Quote_def fail_def succeed_def Let_def split: sum.splits)

lemma Assemble_sent:
  "sent (Assemble env c userAddr pathId isSimulate) = []
   \<or> (\<exists>req0. sent (Assemble env c userAddr pathId isSimulate) = [odos_set_headers req0])"
  by (auto simp: Assemble_def fail_def succeed_def Let_def split: sum.splits)

lemma GetTokenPrice_sent:
  "sent (GetTokenPrice env c chainID tokenAddr) = []
   \<or> sent (GetTokenPrice env c chainID tokenAddr) =
        [\<lparr>Method = ''GET'',
          URL = OdosClient.baseURL c @ ''/pricing/token/'' @ chainID @ ''/'' @ tokenAddr,
          Header = Map.empty, ReqBody = None\<rparr>]"
  by (simp add: GetTokenPrice_def Client_Get_def NewRequest_def fail_def succeed_def Let_def
      split: sum.splits option.splits)

text \<open>
  The deadline is an \<open>int64\<close> sum. Unless the clock is within 20 hours of the largest
  \<open>int64\<close>, it is the integer sum too.
\<close>

lemma BuildRoute_deadline_no_wrap:
  assumes "sint (Unix_now env) \<le> 9223372036854703807"
  shows "sint (Unix_now env + 20 * 3600) = sint (Unix_now env) + 72000"
proof -
  have lo: "- (2 ^ 63) \<le> sint (Unix_now env)"
    using sint_ge [of "Unix_now env"] by simp
  have "sint (Unix_now env + 72000)
          = signed_take_bit 63 (sint (Unix_now env) + sint (72000 :: int64))"
    by (simp add: sint_word_ariths)
  also have "\<dots> = signed_take_bit 63 (sint (Unix_now env) + 72000)"
    by simp
  also have "\<dots> = sint (Unix_now env) + 72000"
    using lo assms by (intro signed_take_bit_int_eq_self) simp_all
  finally show ?thesis by simp
qed

text \<open>A client built by \<open>kyberswap.NewClient\<close> has both pointers valid, in any store.\<close>

lemma kyberswap_NewClient_valid:
  assumes "kyberswap_NewClient s b ch = (c, s')"
  shows "\<exists>k i. load (clients s') c = Some k \<and> httpClient k = Some i
               \<and> i < length (http_Clients s')"
  using assms
  by (auto simp: kyberswap_NewClient_def alloc_def load_def Let_def)


lemma BuildRoute_sent:
  "sent (BuildRoute env c rs sender recipient) =
     (case Marshal_BuildRouteRequest env
             \<lparr>RouteSummary = rs, Sender = sender, Recipient = recipient,
              Deadline = Unix_now env + 72000, SlippageTolerance = 10\<rparr> of
        Inl e \<Rightarrow> []
      | Inr jsonBody \<Rightarrow>
          (case NewRequest_err env ''POST'' (baseURL c @ ''/api/v1/route/build'') of
             Some e \<Rightarrow> []
           | None \<Rightarrow>
               [\<lparr>Method = ''POST'', URL = baseURL c @ ''/api/v1/route/build'',
                 Header = [''Content-Type'' \<mapsto> ''application/json''],
                 ReqBody = Some jsonBody\<rparr>]))"
  by (auto simp: BuildRoute_def NewRequest_def Header_Set_def fail_def succeed_def Let_def
      split: sum.splits option.splits)

lemma BuildRoute_marshal_failure:
  "Marshal_BuildRouteRequest env
     \<lparr>RouteSummary = rs, Sender = sender, Recipient = recipient,
      Deadline = Unix_now env + 72000, SlippageTolerance = 10\<rparr> = Inl e
   \<Longrightarrow> BuildRoute env c rs sender recipient = fail [] (Errorf_w ''error marshaling request: '' e)"
  by (simp add: BuildRoute_def Let_def)




lemma GetTokenPrice_total:
  "(ret (GetTokenPrice env c chainID tokenAddr) \<noteq> None
      \<or> err (GetTokenPrice env c chainID tokenAddr) = None)
   = (\<exists>req resp priceResp.
        sent (GetTokenPrice env c chainID tokenAddr) = [req]
        \<and> Do env req = Inr resp
        \<and> Decode_PriceResponse env (Body resp) zero_PriceResponse = Inr priceResp
        \<and> GetTokenPrice env c chainID tokenAddr = succeed [req] priceResp)"
  by (auto simp: GetTokenPrice_def Client_Get_def NewRequest_def fail_def succeed_def Let_def
      split: sum.splits option.splits if_splits)

lemma Quote_total:
  "(ret (Quote env c r) \<noteq> None \<or> err (Quote env c r) = None)
   = (\<exists>req resp quoteResp.
        sent (Quote env c r) = [req]
        \<and> Do env req = Inr resp
        \<and> Decode_QuoteResponse env (Body resp) zero_QuoteResponse = Inr quoteResp
        \<and> Quote env c r = succeed [req] quoteResp)"
  by (auto simp: Quote_def NewRequest_def fail_def succeed_def Let_def
      split: sum.splits option.splits if_splits)

lemma GetTokenPrice_failures:
  "err (GetTokenPrice env c chainID tokenAddr) = Some e \<Longrightarrow>
     ret (GetTokenPrice env c chainID tokenAddr) = None
     \<and> ((\<exists>t. Client_Get env (OdosClient.baseURL c @ ''/pricing/token/'' @ chainID @ ''/''
                               @ tokenAddr)
                = (sent (GetTokenPrice env c chainID tokenAddr), Inl t)
              \<and> e = Errorf_w ''failed to get token price: '' t)
          \<or> (\<exists>req resp d. sent (GetTokenPrice env c chainID tokenAddr) = [req]
                \<and> Do env req = Inr resp
                \<and> Decode_PriceResponse env (Body resp) zero_PriceResponse = Inl d
                \<and> e = Errorf_w ''failed to decode response: '' d))"
  by (auto simp: GetTokenPrice_def Client_Get_def NewRequest_def fail_def succeed_def Let_def
      split: sum.splits option.splits if_splits prod.splits)

lemma Quote_failures:
  "err (Quote env c r) = Some e \<Longrightarrow>
     ret (Quote env c r) = None
     \<and> ((\<exists>m. Marshal_QuoteRequest env r = Inl m \<and> sent (Quote env c r) = []
              \<and> e = Errorf_w ''failed to marshal request: '' m)
          \<or> (\<exists>n. NewRequest_err env ''POST'' (OdosClient.baseURL c @ ''/sor/quote/v2'') = Some n
                \<and> sent (Quote env c r) = []
                \<and> e = Errorf_w ''failed to create request: '' n)
          \<or> (\<exists>req t. sent (Quote env c r) = [req] \<and> Do env req = Inl t
                \<and> e = Errorf_w ''failed to get quote: '' t)
          \<or> (\<exists>req resp d. sent (Quote env c r) = [req] \<and> Do env req = Inr resp
                \<and> Decode_QuoteResponse env (Body resp) zero_QuoteResponse = Inl d
                \<and> e = Errorf_w ''failed to decode response: '' d))"
  by (auto simp: Quote_def NewRequest_def fail_def succeed_def Let_def
      split: sum.splits option.splits if_splits)

text \<open>The round trip through package encoding/json, type by type.\<close>

lemma coerce_valid: "valid_utf8 k s \<Longrightarrow> coerce_utf8 k s = s"
  by (induction s arbitrary: k) auto

lemma coerce_ValidString: "ValidString s \<Longrightarrow> coerce_utf8 0 s = s"
  by (simp add: ValidString_def coerce_valid)

lemma string_round_trip: "ValidString s \<Longrightarrow> round_trips encode_string decode_string s"
  by (simp add: round_trips_def encode_string_def decode_string_def coerce_ValidString)

lemma bool_round_trip: "round_trips encode_bool decode_bool b"
  by (simp add: round_trips_def encode_bool_def decode_bool_def)

lemma float64_round_trip:
  assumes "\<forall>f. float64_finite f \<longrightarrow> ParseFloat sc (FormatFloat sc f) = Some f"
    and "float64_finite f"
  shows "round_trips (encode_float64 sc) (decode_float64 sc) f"
  using assms by (simp add: round_trips_def encode_float64_def decode_float64_def)

lemma sequence_round:
  assumes "\<forall>x \<in> set xs. \<exists>j. f x = Inr j \<and> g j = Inr x"
  shows "\<exists>js. sequence (map f xs) = Inr js \<and> sequence (map g js) = Inr xs"
  using assms
proof (induction xs)
  case Nil
  then show ?case by simp
next
  case (Cons x xs)
  then obtain j js where "f x = Inr j" "g j = Inr x"
    "sequence (map f xs) = Inr js" "sequence (map g js) = Inr xs"
    by auto
  then have "sequence (map f (x # xs)) = Inr (j # js) \<and> sequence (map g (j # js)) = Inr (x # xs)"
    by simp
  then show ?case by blast
qed

lemma elems_round:
  assumes "\<forall>x \<in> set xs. round_trips enc dec x"
  shows "\<exists>js. sequence (map enc xs) = Inr js \<and> (\<forall>old. decode_elems dec z js old = Inr xs)"
  using assms
proof (induction xs)
  case Nil
  then show ?case by simp
next
  case (Cons x xs)
  then obtain j js where "enc x = Inr j" "\<forall>old. dec j old = Inr x"
    "sequence (map enc xs) = Inr js" "\<forall>old. decode_elems dec z js old = Inr xs"
    by (auto simp: round_trips_def)
  then have "sequence (map enc (x # xs)) = Inr (j # js)
      \<and> (\<forall>old. decode_elems dec z (j # js) old = Inr (x # xs))"
    by simp
  then show ?case by blast
qed

lemma slice_round_trip:
  assumes "slice_all (round_trips enc dec) s"
  shows "round_trips (encode_slice enc) (decode_slice dec z) s"
proof (cases s)
  case None
  then show ?thesis
    by (simp add: round_trips_def encode_slice_def decode_slice_def)
next
  case (Some xs)
  with assms have "\<forall>x \<in> set xs. round_trips enc dec x"
    by (simp add: slice_all_def list_all_iff)
  from elems_round [OF this, of z] obtain js where
    "sequence (map enc xs) = Inr js" "\<forall>old. decode_elems dec z js old = Inr xs"
    by blast
  with Some show ?thesis
    by (simp add: round_trips_def encode_slice_def decode_slice_def)
qed

lemma slice_all_mono: "(\<And>x. P x \<Longrightarrow> Q x) \<Longrightarrow> slice_all P s \<Longrightarrow> slice_all Q s"
  by (cases s) (auto simp: slice_all_def list_all_iff)

lemma map_put_last: "\<forall>kv \<in> set m. fst kv < k \<Longrightarrow> map_put k v m = m @ [(k, v)]"
  by (induction m) auto

lemma map_put_sorted:
  "sorted_wrt (<) (map fst (m @ kvs))
     \<Longrightarrow> foldl (\<lambda>m kv. map_put (fst kv) (snd kv) m) m kvs = m @ kvs"
proof (induction kvs arbitrary: m)
  case Nil
  then show ?case by simp
next
  case (Cons kv kvs)
  from Cons.prems have less: "\<forall>x \<in> set m. fst x < fst kv"
    by (auto simp: sorted_wrt_append)
  have step: "map_put (fst kv) (snd kv) m = m @ [kv]"
    using map_put_last [OF less, of "snd kv"] by simp
  from Cons.prems have "sorted_wrt (<) (map fst ((m @ [kv]) @ kvs))"
    by simp
  from Cons.IH [OF this] show ?case
    by (simp add: step)
qed

lemma any_round_trip:
  assumes sc: "\<forall>f. float64_finite f \<longrightarrow> ParseFloat sc (FormatFloat sc f) = Some f"
  shows "wf_any v \<Longrightarrow> \<exists>j. encode_any sc v = Inr j \<and> any_of_json sc j = Inr v"
proof (induction v)
  case any_nil
  then show ?case by simp
next
  case (any_bool b)
  then show ?case by (simp add: encode_bool_def)
next
  case (any_float64 f)
  then show ?case using sc by (simp add: encode_float64_def)
next
  case (any_string s)
  then show ?case by (simp add: encode_string_def coerce_ValidString)
next
  case (any_slice xs)
  then have "\<forall>x \<in> set xs. \<exists>j. encode_any sc x = Inr j \<and> any_of_json sc j = Inr x"
    by (simp add: list_all_iff)
  from sequence_round [OF this] obtain js where
    "sequence (map (encode_any sc) xs) = Inr js" "sequence (map (any_of_json sc) js) = Inr xs"
    by blast
  then show ?case by simp
next
  case (any_map kvs)
  let ?f = "\<lambda>kv. case encode_any sc (snd kv) of
                    Inl e \<Rightarrow> Inl e | Inr j \<Rightarrow> Inr (coerce_utf8 0 (fst kv), j)"
  let ?g = "\<lambda>kv. case any_of_json sc (snd kv) of
                    Inl e \<Rightarrow> Inl e | Inr v \<Rightarrow> Inr (coerce_utf8 0 (fst kv), v)"
  let ?ps = "map (\<lambda>kv. (fst kv, encode_any sc (snd kv))) kvs"
  from any_map.prems have srt: "sorted_wrt (<) (map fst kvs)"
    and ok: "\<forall>kv \<in> set kvs. ValidString (fst kv) \<and> wf_any (snd kv)"
    by (simp_all add: list_all_iff)
  have fst_ps: "map fst ?ps = map fst kvs"
    by (simp add: comp_def)
  from srt have "sorted (map fst kvs)"
    by (rule strict_sorted_imp_sorted)
  then have "sorted (map fst ?ps)"
    by (simp only: fst_ps)
  then have same: "sort_key fst ?ps = ?ps"
    by (rule sort_key_id_if_sorted)
  have each: "\<forall>kv \<in> set kvs. \<exists>m. ?f kv = Inr m \<and> ?g m = Inr kv"
  proof
    fix kv assume kv: "kv \<in> set kvs"
    with ok have v: "ValidString (fst kv)" and w: "wf_any (snd kv)"
      by simp_all
    have "snd kv \<in> Basic_BNFs.snds kv"
      by (cases kv) simp
    from any_map.IH [OF kv this w] obtain j where
      j: "encode_any sc (snd kv) = Inr j" "any_of_json sc j = Inr (snd kv)"
      by blast
    have "?f kv = Inr (fst kv, j) \<and> ?g (fst kv, j) = Inr kv"
      using j v by (simp add: coerce_ValidString)
    then show "\<exists>m. ?f kv = Inr m \<and> ?g m = Inr kv"
      by blast
  qed
  from sequence_round [OF each] obtain ms where
    ms: "sequence (map ?f kvs) = Inr ms" "sequence (map ?g ms) = Inr kvs"
    by blast
  have mp: "map (\<lambda>kv. case snd kv of Inl e \<Rightarrow> Inl e
                              | Inr j \<Rightarrow> Inr (coerce_utf8 0 (fst kv), j)) ?ps = map ?f kvs"
    by (simp add: comp_def cong: sum.case_cong)
  have enc: "encode_any sc (any_map kvs) = Inr (JObject ms)"
    by (simp only: encode_any.simps same mp ms(1) sum.case)
  have canon: "foldl (\<lambda>m kv. map_put (fst kv) (snd kv) m) [] kvs = kvs"
    using map_put_sorted [of "[]" kvs] srt by simp
  have dec: "any_of_json sc (JObject ms) = Inr (any_map kvs)"
    using ms(2) by (simp add: canon)
  from enc dec show ?case by blast
qed

lemma any_round_trips:
  assumes "\<forall>f. float64_finite f \<longrightarrow> ParseFloat sc (FormatFloat sc f) = Some f"
    and "wf_any v"
  shows "round_trips (encode_any sc) (decode_any sc) v"
  using any_round_trip [OF assms] by (simp add: round_trips_def decode_any_def)


lemma digit_nth:
  assumes "k < 10"
  shows "byte (''0123456789'' ! k) = 48 + k"
proof -
  from assms have "k = 0 \<or> k = 1 \<or> k = 2 \<or> k = 3 \<or> k = 4 \<or> k = 5 \<or> k = 6 \<or> k = 7 \<or> k = 8 \<or> k = 9"
    by arith
  then show ?thesis
    by (auto simp: byte_def)
qed

lemma fmt_nat_unfold:
  "fmt_nat n = (if n < 10 then [''0123456789'' ! n]
                else fmt_nat (n div 10) @ [''0123456789'' ! (n mod 10)])"
  by (rule fmt_nat.simps)

lemma fmt_nat_digits:
  "fmt_nat n \<noteq> [] \<and> list_all (\<lambda>c. 48 \<le> byte c \<and> byte c \<le> 57) (fmt_nat n)
   \<and> foldl (\<lambda>a c. 10 * a + (byte c - 48)) 0 (fmt_nat n) = n"
proof (induction n rule: fmt_nat.induct)
  case (1 n)
  show ?case
  proof (cases "n < 10")
    case True
    then have eq: "fmt_nat n = [''0123456789'' ! n]"
      by (subst fmt_nat_unfold) (simp del: fmt_nat.simps)
    show ?thesis
      unfolding eq using True by (simp del: fmt_nat.simps add: digit_nth)
  next
    case False
    then have m: "n mod 10 < 10" by simp
    from False "1.IH" have ih: "fmt_nat (n div 10) \<noteq> []"
      "list_all (\<lambda>c. 48 \<le> byte c \<and> byte c \<le> 57) (fmt_nat (n div 10))"
      "foldl (\<lambda>a c. 10 * a + (byte c - 48)) 0 (fmt_nat (n div 10)) = n div 10"
      by (simp_all del: fmt_nat.simps)
    have eq: "fmt_nat n = fmt_nat (n div 10) @ [''0123456789'' ! (n mod 10)]"
      using False by (subst fmt_nat_unfold) (simp del: fmt_nat.simps)
    show ?thesis
      unfolding eq using ih by (simp del: fmt_nat.simps add: digit_nth [OF m])
  qed
qed

lemma parse_digits_fmt_nat: "parse_digits (fmt_nat n) = Some n"
  using fmt_nat_digits [of n] by (simp del: fmt_nat.simps add: parse_digits_def)

lemma fmt_nat_hd: "\<exists>c cs. fmt_nat n = c # cs \<and> c \<noteq> CHR ''-'' \<and> c \<noteq> CHR ''+''"
proof -
  from fmt_nat_digits [of n] obtain c cs where s: "fmt_nat n = c # cs"
    by (cases "fmt_nat n") (auto simp del: fmt_nat.simps)
  with fmt_nat_digits [of n] have "48 \<le> byte c" by (simp del: fmt_nat.simps)
  then have "c \<noteq> CHR ''-'' \<and> c \<noteq> CHR ''+''"
    by (auto simp: byte_def)
  with s show ?thesis by blast
qed

lemma ParseInt64_fmt_d: "ParseInt64 (fmt_d (sint (w :: int64))) = Some w"
proof (cases "sint w < 0")
  case True
  let ?n = "nat (- sint w)"
  have b: "?n \<le> 2 ^ 63"
    using sint_ge [of w] by simp
  have "(- of_nat ?n :: int64) = word_of_int (- int ?n)"
    by simp
  also have "\<dots> = word_of_int (sint w)"
    using True by simp
  finally have v: "(- of_nat ?n :: int64) = w"
    by simp
  show ?thesis
    using True b v
    by (simp del: fmt_nat.simps add: fmt_d_def ParseInt64_def parse_digits_fmt_nat)
next
  case False
  let ?n = "nat (sint w)"
  have b: "?n < 2 ^ 63"
    using sint_lt [of w] False by simp
  have "(of_nat ?n :: int64) = word_of_int (int ?n)"
    by simp
  also have "\<dots> = word_of_int (sint w)"
    using False by simp
  finally have v: "(of_nat ?n :: int64) = w"
    by simp
  obtain c cs where s: "fmt_nat ?n = c # cs" "c \<noteq> CHR ''-''" "c \<noteq> CHR ''+''"
    using fmt_nat_hd [of ?n] by blast
  have "parse_digits (c # cs) = Some ?n"
    using parse_digits_fmt_nat [of ?n] s by (simp del: fmt_nat.simps)
  then show ?thesis
    using False b v s by (simp del: fmt_nat.simps add: fmt_d_def ParseInt64_def)
qed

lemma int64_round_trip: "round_trips encode_int64 decode_int64 w"
  by (simp del: fmt_nat.simps add: round_trips_def encode_int64_def decode_int64_def
      ParseInt64_fmt_d)

lemma InputToken_round_trip:
  assumes wf: "wf_InputToken x"
  shows "round_trips (encode_InputToken) (decode_InputToken) x"
proof -
  have w1: "ValidString (InputToken.TokenAddress x)"
    using wf by (simp add: wf_InputToken_def)
  have r1: "round_trips encode_string decode_string (InputToken.TokenAddress x)"
    using w1 by (simp add: string_round_trip)
  from r1 obtain j1 where e1: "encode_string (InputToken.TokenAddress x) = Inr j1"
    and d1: "\<And>old. decode_string j1 old = Inr (InputToken.TokenAddress x)"
    by (auto simp: round_trips_def)
  have w2: "ValidString (InputToken.Amount x)"
    using wf by (simp add: wf_InputToken_def)
  have r2: "round_trips encode_string decode_string (InputToken.Amount x)"
    using w2 by (simp add: string_round_trip)
  from r2 obtain j2 where e2: "encode_string (InputToken.Amount x) = Inr j2"
    and d2: "\<And>old. decode_string j2 old = Inr (InputToken.Amount x)"
    by (auto simp: round_trips_def)
  let ?j = "JObject
      [(''tokenAddress'', j1),
       (''amount'', j2)]"
  have enc: "encode_InputToken x = Inr ?j"
    by (simp add: encode_InputToken_def encode_struct_def e1 e2)
  have dec: "decode_InputToken ?j old = Inr x" for old
    by (simp add: decode_InputToken_def decode_struct_def InputToken_fields_def find_field_def field_def
        d1 d2)
  show ?thesis
    unfolding round_trips_def using enc dec by blast
qed

lemma OutputToken_round_trip:
  assumes sc: "\<forall>f. float64_finite f \<longrightarrow> ParseFloat sc (FormatFloat sc f) = Some f"
    and wf: "wf_OutputToken x"
  shows "round_trips (encode_OutputToken sc) (decode_OutputToken sc) x"
proof -
  have w1: "ValidString (OutputToken.TokenAddress x)"
    using wf by (simp add: wf_OutputToken_def)
  have r1: "round_trips encode_string decode_string (OutputToken.TokenAddress x)"
    using w1 by (simp add: string_round_trip)
  from r1 obtain j1 where e1: "encode_string (OutputToken.TokenAddress x) = Inr j1"
    and d1: "\<And>old. decode_string j1 old = Inr (OutputToken.TokenAddress x)"
    by (auto simp: round_trips_def)
  have w2: "float64_finite (OutputToken.Proportion x)"
    using wf by (simp add: wf_OutputToken_def)
  have r2: "round_trips (encode_float64 sc) (decode_float64 sc) (OutputToken.Proportion x)"
    using w2 by (simp add: float64_round_trip [OF sc])
  from r2 obtain j2 where e2: "(encode_float64 sc) (OutputToken.Proportion x) = Inr j2"
    and d2: "\<And>old. (decode_float64 sc) j2 old = Inr (OutputToken.Proportion x)"
    by (auto simp: round_trips_def)
  let ?j = "JObject
      [(''tokenAddress'', j1),
       (''proportion'', j2)]"
  have enc: "encode_OutputToken sc x = Inr ?j"
    by (simp add: encode_OutputToken_def encode_struct_def e1 e2)
  have dec: "decode_OutputToken sc ?j old = Inr x" for old
    by (simp add: decode_OutputToken_def decode_struct_def OutputToken_fields_def find_field_def field_def
        d1 d2)
  show ?thesis
    unfolding round_trips_def using enc dec by blast
qed

lemma QuoteRequest_round_trip:
  assumes sc: "\<forall>f. float64_finite f \<longrightarrow> ParseFloat sc (FormatFloat sc f) = Some f"
    and wf: "wf_QuoteRequest x"
  shows "round_trips (encode_QuoteRequest sc) (decode_QuoteRequest sc) x"
proof -
  have r1: "round_trips encode_int64 decode_int64 (QuoteRequest.ChainId x)"
    by (rule int64_round_trip)
  from r1 obtain j1 where e1: "encode_int64 (QuoteRequest.ChainId x) = Inr j1"
    and d1: "\<And>old. decode_int64 j1 old = Inr (QuoteRequest.ChainId x)"
    by (auto simp: round_trips_def)
  have w2: "slice_all wf_InputToken (QuoteRequest.InputTokens x)"
    using wf by (simp add: wf_QuoteRequest_def)
  have i2: "slice_all (round_trips encode_InputToken decode_InputToken) (QuoteRequest.InputTokens x)"
    using w2 InputToken_round_trip by (rule slice_all_mono [rotated])
  have r2: "round_trips (encode_slice encode_InputToken) (decode_slice decode_InputToken zero_InputToken) (QuoteRequest.InputTokens x)"
    by (rule slice_round_trip [OF i2])
  from r2 obtain j2 where e2: "(encode_slice encode_InputToken) (QuoteRequest.InputTokens x) = Inr j2"
    and d2: "\<And>old. (decode_slice decode_InputToken zero_InputToken) j2 old = Inr (QuoteRequest.InputTokens x)"
    by (auto simp: round_trips_def)
  have w3: "slice_all wf_OutputToken (QuoteRequest.OutputTokens x)"
    using wf by (simp add: wf_QuoteRequest_def)
  have i3: "slice_all (round_trips (encode_OutputToken sc) (decode_OutputToken sc)) (QuoteRequest.OutputTokens x)"
    using w3 OutputToken_round_trip [OF sc] by (rule slice_all_mono [rotated])
  have r3: "round_trips (encode_slice (encode_OutputToken sc)) (decode_slice (decode_OutputToken sc) zero_OutputToken) (QuoteRequest.OutputTokens x)"
    by (rule slice_round_trip [OF i3])
  from r3 obtain j3 where e3: "(encode_slice (encode_OutputToken sc)) (QuoteRequest.OutputTokens x) = Inr j3"
    and d3: "\<And>old. (decode_slice (decode_OutputToken sc) zero_OutputToken) j3 old = Inr (QuoteRequest.OutputTokens x)"
    by (auto simp: round_trips_def)
  have w4: "float64_finite (QuoteRequest.GasPrice x)"
    using wf by (simp add: wf_QuoteRequest_def)
  have r4: "round_trips (encode_float64 sc) (decode_float64 sc) (QuoteRequest.GasPrice x)"
    using w4 by (simp add: float64_round_trip [OF sc])
  from r4 obtain j4 where e4: "(encode_float64 sc) (QuoteRequest.GasPrice x) = Inr j4"
    and d4: "\<And>old. (decode_float64 sc) j4 old = Inr (QuoteRequest.GasPrice x)"
    by (auto simp: round_trips_def)
  have w5: "ValidString (QuoteRequest.UserAddr x)"
    using wf by (simp add: wf_QuoteRequest_def)
  have r5: "round_trips encode_string decode_string (QuoteRequest.UserAddr x)"
    using w5 by (simp add: string_round_trip)
  from r5 obtain j5 where e5: "encode_string (QuoteRequest.UserAddr x) = Inr j5"
    and d5: "\<And>old. decode_string j5 old = Inr (QuoteRequest.UserAddr x)"
    by (auto simp: round_trips_def)
  have w6: "float64_finite (QuoteRequest.SlippageLimitPercent x)"
    using wf by (simp add: wf_QuoteRequest_def)
  have r6: "round_trips (encode_float64 sc) (decode_float64 sc) (QuoteRequest.SlippageLimitPercent x)"
    using w6 by (simp add: float64_round_trip [OF sc])
  from r6 obtain j6 where e6: "(encode_float64 sc) (QuoteRequest.SlippageLimitPercent x) = Inr j6"
    and d6: "\<And>old. (decode_float64 sc) j6 old = Inr (QuoteRequest.SlippageLimitPercent x)"
    by (auto simp: round_trips_def)
  have w7: "slice_all ValidString (QuoteRequest.SourceBlacklist x)"
    using wf by (simp add: wf_QuoteRequest_def)
  have i7: "slice_all (round_trips encode_string decode_string) (QuoteRequest.SourceBlacklist x)"
    using w7 string_round_trip by (rule slice_all_mono [rotated])
  have r7: "round_trips (encode_slice encode_string) (decode_slice decode_string []) (QuoteRequest.SourceBlacklist x)"
    by (rule slice_round_trip [OF i7])
  from r7 obtain j7 where e7: "(encode_slice encode_string) (QuoteRequest.SourceBlacklist x) = Inr j7"
    and d7: "\<And>old. (decode_slice decode_string []) j7 old = Inr (QuoteRequest.SourceBlacklist x)"
    by (auto simp: round_trips_def)
  have w8: "slice_all ValidString (QuoteRequest.SourceWhitelist x)"
    using wf by (simp add: wf_QuoteRequest_def)
  have i8: "slice_all (round_trips encode_string decode_string) (QuoteRequest.SourceWhitelist x)"
    using w8 string_round_trip by (rule slice_all_mono [rotated])
  have r8: "round_trips (encode_slice encode_string) (decode_slice decode_string []) (QuoteRequest.SourceWhitelist x)"
    by (rule slice_round_trip [OF i8])
  from r8 obtain j8 where e8: "(encode_slice encode_string) (QuoteRequest.SourceWhitelist x) = Inr j8"
    and d8: "\<And>old. (decode_slice decode_string []) j8 old = Inr (QuoteRequest.SourceWhitelist x)"
    by (auto simp: round_trips_def)
  have w9: "slice_all ValidString (QuoteRequest.PoolBlacklist x)"
    using wf by (simp add: wf_QuoteRequest_def)
  have i9: "slice_all (round_trips encode_string decode_string) (QuoteRequest.PoolBlacklist x)"
    using w9 string_round_trip by (rule slice_all_mono [rotated])
  have r9: "round_trips (encode_slice encode_string) (decode_slice decode_string []) (QuoteRequest.PoolBlacklist x)"
    by (rule slice_round_trip [OF i9])
  from r9 obtain j9 where e9: "(encode_slice encode_string) (QuoteRequest.PoolBlacklist x) = Inr j9"
    and d9: "\<And>old. (decode_slice decode_string []) j9 old = Inr (QuoteRequest.PoolBlacklist x)"
    by (auto simp: round_trips_def)
  have r10: "round_trips encode_bool decode_bool (QuoteRequest.PathViz x)"
    by (rule bool_round_trip)
  from r10 obtain j10 where e10: "encode_bool (QuoteRequest.PathViz x) = Inr j10"
    and d10: "\<And>old. decode_bool j10 old = Inr (QuoteRequest.PathViz x)"
    by (auto simp: round_trips_def)
  have r11: "round_trips encode_int64 decode_int64 (QuoteRequest.ReferralCode x)"
    by (rule int64_round_trip)
  from r11 obtain j11 where e11: "encode_int64 (QuoteRequest.ReferralCode x) = Inr j11"
    and d11: "\<And>old. decode_int64 j11 old = Inr (QuoteRequest.ReferralCode x)"
    by (auto simp: round_trips_def)
  have r12: "round_trips encode_bool decode_bool (QuoteRequest.Compact x)"
    by (rule bool_round_trip)
  from r12 obtain j12 where e12: "encode_bool (QuoteRequest.Compact x) = Inr j12"
    and d12: "\<And>old. decode_bool j12 old = Inr (QuoteRequest.Compact x)"
    by (auto simp: round_trips_def)
  have r13: "round_trips encode_bool decode_bool (QuoteRequest.LikeAsset x)"
    by (rule bool_round_trip)
  from r13 obtain j13 where e13: "encode_bool (QuoteRequest.LikeAsset x) = Inr j13"
    and d13: "\<And>old. decode_bool j13 old = Inr (QuoteRequest.LikeAsset x)"
    by (auto simp: round_trips_def)
  have r14: "round_trips encode_bool decode_bool (QuoteRequest.DisableRFQs x)"
    by (rule bool_round_trip)
  from r14 obtain j14 where e14: "encode_bool (QuoteRequest.DisableRFQs x) = Inr j14"
    and d14: "\<And>old. decode_bool j14 old = Inr (QuoteRequest.DisableRFQs x)"
    by (auto simp: round_trips_def)
  have r15: "round_trips encode_bool decode_bool (QuoteRequest.Simple x)"
    by (rule bool_round_trip)
  from r15 obtain j15 where e15: "encode_bool (QuoteRequest.Simple x) = Inr j15"
    and d15: "\<And>old. decode_bool j15 old = Inr (QuoteRequest.Simple x)"
    by (auto simp: round_trips_def)
  let ?j = "JObject
      [(''chainId'', j1),
       (''inputTokens'', j2),
       (''outputTokens'', j3),
       (''gasPrice'', j4),
       (''userAddr'', j5),
       (''slippageLimitPercent'', j6),
       (''sourceBlacklist'', j7),
       (''sourceWhitelist'', j8),
       (''poolBlacklist'', j9),
       (''pathViz'', j10),
       (''referralCode'', j11),
       (''compact'', j12),
       (''likeAsset'', j13),
       (''disableRFQs'', j14),
       (''simple'', j15)]"
  have enc: "encode_QuoteRequest sc x = Inr ?j"
    by (simp add: encode_QuoteRequest_def encode_struct_def e1 e2 e3 e4 e5 e6 e7 e8 e9 e10 e11 e12 e13 e14 e15)
  have dec: "decode_QuoteRequest sc ?j old = Inr x" for old
    by (simp add: decode_QuoteRequest_def decode_struct_def QuoteRequest_fields_def find_field_def field_def
        d1 d2 d3 d4 d5 d6 d7 d8 d9 d10 d11 d12 d13 d14 d15)
  show ?thesis
    unfolding round_trips_def using enc dec by blast
qed

lemma AssembleRequest_round_trip:
  assumes wf: "wf_AssembleRequest x"
  shows "round_trips (encode_AssembleRequest) (decode_AssembleRequest) x"
proof -
  have w1: "ValidString (AssembleRequest.UserAddr x)"
    using wf by (simp add: wf_AssembleRequest_def)
  have r1: "round_trips encode_string decode_string (AssembleRequest.UserAddr x)"
    using w1 by (simp add: string_round_trip)
  from r1 obtain j1 where e1: "encode_string (AssembleRequest.UserAddr x) = Inr j1"
    and d1: "\<And>old. decode_string j1 old = Inr (AssembleRequest.UserAddr x)"
    by (auto simp: round_trips_def)
  have w2: "ValidString (AssembleRequest.PathId x)"
    using wf by (simp add: wf_AssembleRequest_def)
  have r2: "round_trips encode_string decode_string (AssembleRequest.PathId x)"
    using w2 by (simp add: string_round_trip)
  from r2 obtain j2 where e2: "encode_string (AssembleRequest.PathId x) = Inr j2"
    and d2: "\<And>old. decode_string j2 old = Inr (AssembleRequest.PathId x)"
    by (auto simp: round_trips_def)
  have r3: "round_trips encode_bool decode_bool (AssembleRequest.Simulate x)"
    by (rule bool_round_trip)
  from r3 obtain j3 where e3: "encode_bool (AssembleRequest.Simulate x) = Inr j3"
    and d3: "\<And>old. decode_bool j3 old = Inr (AssembleRequest.Simulate x)"
    by (auto simp: round_trips_def)
  let ?j = "JObject
      [(''userAddr'', j1),
       (''pathId'', j2),
       (''simulate'', j3)]"
  have enc: "encode_AssembleRequest x = Inr ?j"
    by (simp add: encode_AssembleRequest_def encode_struct_def e1 e2 e3)
  have dec: "decode_AssembleRequest ?j old = Inr x" for old
    by (simp add: decode_AssembleRequest_def decode_struct_def AssembleRequest_fields_def find_field_def field_def
        d1 d2 d3)
  show ?thesis
    unfolding round_trips_def using enc dec by blast
qed

lemma ExtraFee_round_trip:
  assumes wf: "wf_ExtraFee x"
  shows "round_trips (encode_ExtraFee) (decode_ExtraFee) x"
proof -
  have w1: "ValidString (ExtraFee.FeeAmount x)"
    using wf by (simp add: wf_ExtraFee_def)
  have r1: "round_trips encode_string decode_string (ExtraFee.FeeAmount x)"
    using w1 by (simp add: string_round_trip)
  from r1 obtain j1 where e1: "encode_string (ExtraFee.FeeAmount x) = Inr j1"
    and d1: "\<And>old. decode_string j1 old = Inr (ExtraFee.FeeAmount x)"
    by (auto simp: round_trips_def)
  have w2: "ValidString (ExtraFee.ChargeFeeBy x)"
    using wf by (simp add: wf_ExtraFee_def)
  have r2: "round_trips encode_string decode_string (ExtraFee.ChargeFeeBy x)"
    using w2 by (simp add: string_round_trip)
  from r2 obtain j2 where e2: "encode_string (ExtraFee.ChargeFeeBy x) = Inr j2"
    and d2: "\<And>old. decode_string j2 old = Inr (ExtraFee.ChargeFeeBy x)"
    by (auto simp: round_trips_def)
  have r3: "round_trips encode_bool decode_bool (ExtraFee.IsInBps x)"
    by (rule bool_round_trip)
  from r3 obtain j3 where e3: "encode_bool (ExtraFee.IsInBps x) = Inr j3"
    and d3: "\<And>old. decode_bool j3 old = Inr (ExtraFee.IsInBps x)"
    by (auto simp: round_trips_def)
  have w4: "ValidString (ExtraFee.FeeReceiver x)"
    using wf by (simp add: wf_ExtraFee_def)
  have r4: "round_trips encode_string decode_string (ExtraFee.FeeReceiver x)"
    using w4 by (simp add: string_round_trip)
  from r4 obtain j4 where e4: "encode_string (ExtraFee.FeeReceiver x) = Inr j4"
    and d4: "\<And>old. decode_string j4 old = Inr (ExtraFee.FeeReceiver x)"
    by (auto simp: round_trips_def)
  let ?j = "JObject
      [(''feeAmount'', j1),
       (''chargeFeeBy'', j2),
       (''isInBps'', j3),
       (''feeReceiver'', j4)]"
  have enc: "encode_ExtraFee x = Inr ?j"
    by (simp add: encode_ExtraFee_def encode_struct_def e1 e2 e3 e4)
  have dec: "decode_ExtraFee ?j old = Inr x" for old
    by (simp add: decode_ExtraFee_def decode_struct_def ExtraFee_fields_def find_field_def field_def
        d1 d2 d3 d4)
  show ?thesis
    unfolding round_trips_def using enc dec by blast
qed

lemma OuterPoolExtra_round_trip:
  "round_trips (encode_OuterPoolExtra) (decode_OuterPoolExtra) x"
proof -
  have r1: "round_trips encode_int64 decode_int64 (OuterPoolExtra.BlockNumber x)"
    by (rule int64_round_trip)
  from r1 obtain j1 where e1: "encode_int64 (OuterPoolExtra.BlockNumber x) = Inr j1"
    and d1: "\<And>old. decode_int64 j1 old = Inr (OuterPoolExtra.BlockNumber x)"
    by (auto simp: round_trips_def)
  have r2: "round_trips encode_int64 decode_int64 (OuterPoolExtra.TokenInIndex x)"
    by (rule int64_round_trip)
  from r2 obtain j2 where e2: "encode_int64 (OuterPoolExtra.TokenInIndex x) = Inr j2"
    and d2: "\<And>old. decode_int64 j2 old = Inr (OuterPoolExtra.TokenInIndex x)"
    by (auto simp: round_trips_def)
  have r3: "round_trips encode_int64 decode_int64 (OuterPoolExtra.TokenOutIndex x)"
    by (rule int64_round_trip)
  from r3 obtain j3 where e3: "encode_int64 (OuterPoolExtra.TokenOutIndex x) = Inr j3"
    and d3: "\<And>old. decode_int64 j3 old = Inr (OuterPoolExtra.TokenOutIndex x)"
    by (auto simp: round_trips_def)
  have r4: "round_trips encode_bool decode_bool (OuterPoolExtra.Underlying x)"
    by (rule bool_round_trip)
  from r4 obtain j4 where e4: "encode_bool (OuterPoolExtra.Underlying x) = Inr j4"
    and d4: "\<And>old. decode_bool j4 old = Inr (OuterPoolExtra.Underlying x)"
    by (auto simp: round_trips_def)
  have r5: "round_trips encode_bool decode_bool (OuterPoolExtra.TokenInIsNative x)"
    by (rule bool_round_trip)
  from r5 obtain j5 where e5: "encode_bool (OuterPoolExtra.TokenInIsNative x) = Inr j5"
    and d5: "\<And>old. decode_bool j5 old = Inr (OuterPoolExtra.TokenInIsNative x)"
    by (auto simp: round_trips_def)
  have r6: "round_trips encode_bool decode_bool (OuterPoolExtra.TokenOutIsNative x)"
    by (rule bool_round_trip)
  from r6 obtain j6 where e6: "encode_bool (OuterPoolExtra.TokenOutIsNative x) = Inr j6"
    and d6: "\<And>old. decode_bool j6 old = Inr (OuterPoolExtra.TokenOutIsNative x)"
    by (auto simp: round_trips_def)
  let ?j = "JObject
      [(''blockNumber'', j1),
       (''tokenInIndex'', j2),
       (''tokenOutIndex'', j3),
       (''underlying'', j4),
       (''TokenInIsNative'', j5),
       (''TokenOutIsNative'', j6)]"
  have enc: "encode_OuterPoolExtra x = Inr ?j"
    by (simp add: encode_OuterPoolExtra_def encode_struct_def e1 e2 e3 e4 e5 e6)
  have dec: "decode_OuterPoolExtra ?j old = Inr x" for old
    by (simp add: decode_OuterPoolExtra_def decode_struct_def OuterPoolExtra_fields_def find_field_def field_def
        d1 d2 d3 d4 d5 d6)
  show ?thesis
    unfolding round_trips_def using enc dec by blast
qed

lemma Route_round_trip:
  assumes sc: "\<forall>f. float64_finite f \<longrightarrow> ParseFloat sc (FormatFloat sc f) = Some f"
    and wf: "wf_Route x"
  shows "round_trips (encode_Route sc) (decode_Route sc) x"
proof -
  have w1: "ValidString (Route.Pool x)"
    using wf by (simp add: wf_Route_def)
  have r1: "round_trips encode_string decode_string (Route.Pool x)"
    using w1 by (simp add: string_round_trip)
  from r1 obtain j1 where e1: "encode_string (Route.Pool x) = Inr j1"
    and d1: "\<And>old. decode_string j1 old = Inr (Route.Pool x)"
    by (auto simp: round_trips_def)
  have w2: "ValidString (Route.TokenIn x)"
    using wf by (simp add: wf_Route_def)
  have r2: "round_trips encode_string decode_string (Route.TokenIn x)"
    using w2 by (simp add: string_round_trip)
  from r2 obtain j2 where e2: "encode_string (Route.TokenIn x) = Inr j2"
    and d2: "\<And>old. decode_string j2 old = Inr (Route.TokenIn x)"
    by (auto simp: round_trips_def)
  have w3: "ValidString (Route.TokenOut x)"
    using wf by (simp add: wf_Route_def)
  have r3: "round_trips encode_string decode_string (Route.TokenOut x)"
    using w3 by (simp add: string_round_trip)
  from r3 obtain j3 where e3: "encode_string (Route.TokenOut x) = Inr j3"
    and d3: "\<And>old. decode_string j3 old = Inr (Route.TokenOut x)"
    by (auto simp: round_trips_def)
  have w4: "ValidString (Route.LimitReturnAmount x)"
    using wf by (simp add: wf_Route_def)
  have r4: "round_trips encode_string decode_string (Route.LimitReturnAmount x)"
    using w4 by (simp add: string_round_trip)
  from r4 obtain j4 where e4: "encode_string (Route.LimitReturnAmount x) = Inr j4"
    and d4: "\<And>old. decode_string j4 old = Inr (Route.LimitReturnAmount x)"
    by (auto simp: round_trips_def)
  have w5: "ValidString (Route.SwapAmount x)"
    using wf by (simp add: wf_Route_def)
  have r5: "round_trips encode_string decode_string (Route.SwapAmount x)"
    using w5 by (simp add: string_round_trip)
  from r5 obtain j5 where e5: "encode_string (Route.SwapAmount x) = Inr j5"
    and d5: "\<And>old. decode_string j5 old = Inr (Route.SwapAmount x)"
    by (auto simp: round_trips_def)
  have w6: "ValidString (Route.AmountOut x)"
    using wf by (simp add: wf_Route_def)
  have r6: "round_trips encode_string decode_string (Route.AmountOut x)"
    using w6 by (simp add: string_round_trip)
  from r6 obtain j6 where e6: "encode_string (Route.AmountOut x) = Inr j6"
    and d6: "\<And>old. decode_string j6 old = Inr (Route.AmountOut x)"
    by (auto simp: round_trips_def)
  have w7: "ValidString (Route.Exchange x)"
    using wf by (simp add: wf_Route_def)
  have r7: "round_trips encode_string decode_string (Route.Exchange x)"
    using w7 by (simp add: string_round_trip)
  from r7 obtain j7 where e7: "encode_string (Route.Exchange x) = Inr j7"
    and d7: "\<And>old. decode_string j7 old = Inr (Route.Exchange x)"
    by (auto simp: round_trips_def)
  have r8: "round_trips encode_int64 decode_int64 (Route.PoolLength x)"
    by (rule int64_round_trip)
  from r8 obtain j8 where e8: "encode_int64 (Route.PoolLength x) = Inr j8"
    and d8: "\<And>old. decode_int64 j8 old = Inr (Route.PoolLength x)"
    by (auto simp: round_trips_def)
  have w9: "ValidString (Route.PoolType x)"
    using wf by (simp add: wf_Route_def)
  have r9: "round_trips encode_string decode_string (Route.PoolType x)"
    using w9 by (simp add: string_round_trip)
  from r9 obtain j9 where e9: "encode_string (Route.PoolType x) = Inr j9"
    and d9: "\<And>old. decode_string j9 old = Inr (Route.PoolType x)"
    by (auto simp: round_trips_def)
  have r10: "round_trips encode_OuterPoolExtra decode_OuterPoolExtra (Route.PoolExtra x)"
    by (rule OuterPoolExtra_round_trip)
  from r10 obtain j10 where e10: "encode_OuterPoolExtra (Route.PoolExtra x) = Inr j10"
    and d10: "\<And>old. decode_OuterPoolExtra j10 old = Inr (Route.PoolExtra x)"
    by (auto simp: round_trips_def)
  have w11: "wf_any (Route.Extra x)"
    using wf by (simp add: wf_Route_def)
  have r11: "round_trips (encode_any sc) (decode_any sc) (Route.Extra x)"
    using w11 by (simp add: any_round_trips [OF sc])
  from r11 obtain j11 where e11: "(encode_any sc) (Route.Extra x) = Inr j11"
    and d11: "\<And>old. (decode_any sc) j11 old = Inr (Route.Extra x)"
    by (auto simp: round_trips_def)
  let ?j = "JObject
      [(''pool'', j1),
       (''tokenIn'', j2),
       (''tokenOut'', j3),
       (''limitReturnAmount'', j4),
       (''swapAmount'', j5),
       (''amountOut'', j6),
       (''exchange'', j7),
       (''poolLength'', j8),
       (''poolType'', j9),
       (''poolExtra'', j10),
       (''extra'', j11)]"
  have enc: "encode_Route sc x = Inr ?j"
    by (simp add: encode_Route_def encode_struct_def e1 e2 e3 e4 e5 e6 e7 e8 e9 e10 e11)
  have dec: "decode_Route sc ?j old = Inr x" for old
    by (simp add: decode_Route_def decode_struct_def Route_fields_def find_field_def field_def
        d1 d2 d3 d4 d5 d6 d7 d8 d9 d10 d11)
  show ?thesis
    unfolding round_trips_def using enc dec by blast
qed

lemma RouteSummary_round_trip:
  assumes sc: "\<forall>f. float64_finite f \<longrightarrow> ParseFloat sc (FormatFloat sc f) = Some f"
    and wf: "wf_RouteSummary x"
  shows "round_trips (encode_RouteSummary sc) (decode_RouteSummary sc) x"
proof -
  have w1: "ValidString (RouteSummary.TokenIn x)"
    using wf by (simp add: wf_RouteSummary_def)
  have r1: "round_trips encode_string decode_string (RouteSummary.TokenIn x)"
    using w1 by (simp add: string_round_trip)
  from r1 obtain j1 where e1: "encode_string (RouteSummary.TokenIn x) = Inr j1"
    and d1: "\<And>old. decode_string j1 old = Inr (RouteSummary.TokenIn x)"
    by (auto simp: round_trips_def)
  have w2: "ValidString (RouteSummary.AmountIn x)"
    using wf by (simp add: wf_RouteSummary_def)
  have r2: "round_trips encode_string decode_string (RouteSummary.AmountIn x)"
    using w2 by (simp add: string_round_trip)
  from r2 obtain j2 where e2: "encode_string (RouteSummary.AmountIn x) = Inr j2"
    and d2: "\<And>old. decode_string j2 old = Inr (RouteSummary.AmountIn x)"
    by (auto simp: round_trips_def)
  have w3: "ValidString (RouteSummary.AmountInUsd x)"
    using wf by (simp add: wf_RouteSummary_def)
  have r3: "round_trips encode_string decode_string (RouteSummary.AmountInUsd x)"
    using w3 by (simp add: string_round_trip)
  from r3 obtain j3 where e3: "encode_string (RouteSummary.AmountInUsd x) = Inr j3"
    and d3: "\<And>old. decode_string j3 old = Inr (RouteSummary.AmountInUsd x)"
    by (auto simp: round_trips_def)
  have r4: "round_trips encode_bool decode_bool (RouteSummary.TokenInMarketPriceAvailable x)"
    by (rule bool_round_trip)
  from r4 obtain j4 where e4: "encode_bool (RouteSummary.TokenInMarketPriceAvailable x) = Inr j4"
    and d4: "\<And>old. decode_bool j4 old = Inr (RouteSummary.TokenInMarketPriceAvailable x)"
    by (auto simp: round_trips_def)
  have w5: "ValidString (RouteSummary.TokenOut x)"
    using wf by (simp add: wf_RouteSummary_def)
  have r5: "round_trips encode_string decode_string (RouteSummary.TokenOut x)"
    using w5 by (simp add: string_round_trip)
  from r5 obtain j5 where e5: "encode_string (RouteSummary.TokenOut x) = Inr j5"
    and d5: "\<And>old. decode_string j5 old = Inr (RouteSummary.TokenOut x)"
    by (auto simp: round_trips_def)
  have w6: "ValidString (RouteSummary.AmountOut x)"
    using wf by (simp add: wf_RouteSummary_def)
  have r6: "round_trips encode_string decode_string (RouteSummary.AmountOut x)"
    using w6 by (simp add: string_round_trip)
  from r6 obtain j6 where e6: "encode_string (RouteSummary.AmountOut x) = Inr j6"
    and d6: "\<And>old. decode_string j6 old = Inr (RouteSummary.AmountOut x)"
    by (auto simp: round_trips_def)
  have w7: "ValidString (RouteSummary.AmountOutUsd x)"
    using wf by (simp add: wf_RouteSummary_def)
  have r7: "round_trips encode_string decode_string (RouteSummary.AmountOutUsd x)"
    using w7 by (simp add: string_round_trip)
  from r7 obtain j7 where e7: "encode_string (RouteSummary.AmountOutUsd x) = Inr j7"
    and d7: "\<And>old. decode_string j7 old = Inr (RouteSummary.AmountOutUsd x)"
    by (auto simp: round_trips_def)
  have r8: "round_trips encode_bool decode_bool (RouteSummary.TokenOutMarketPriceAvailable x)"
    by (rule bool_round_trip)
  from r8 obtain j8 where e8: "encode_bool (RouteSummary.TokenOutMarketPriceAvailable x) = Inr j8"
    and d8: "\<And>old. decode_bool j8 old = Inr (RouteSummary.TokenOutMarketPriceAvailable x)"
    by (auto simp: round_trips_def)
  have w9: "ValidString (RouteSummary.Gas x)"
    using wf by (simp add: wf_RouteSummary_def)
  have r9: "round_trips encode_string decode_string (RouteSummary.Gas x)"
    using w9 by (simp add: string_round_trip)
  from r9 obtain j9 where e9: "encode_string (RouteSummary.Gas x) = Inr j9"
    and d9: "\<And>old. decode_string j9 old = Inr (RouteSummary.Gas x)"
    by (auto simp: round_trips_def)
  have w10: "ValidString (RouteSummary.GasPrice x)"
    using wf by (simp add: wf_RouteSummary_def)
  have r10: "round_trips encode_string decode_string (RouteSummary.GasPrice x)"
    using w10 by (simp add: string_round_trip)
  from r10 obtain j10 where e10: "encode_string (RouteSummary.GasPrice x) = Inr j10"
    and d10: "\<And>old. decode_string j10 old = Inr (RouteSummary.GasPrice x)"
    by (auto simp: round_trips_def)
  have w11: "ValidString (RouteSummary.GasUsd x)"
    using wf by (simp add: wf_RouteSummary_def)
  have r11: "round_trips encode_string decode_string (RouteSummary.GasUsd x)"
    using w11 by (simp add: string_round_trip)
  from r11 obtain j11 where e11: "encode_string (RouteSummary.GasUsd x) = Inr j11"
    and d11: "\<And>old. decode_string j11 old = Inr (RouteSummary.GasUsd x)"
    by (auto simp: round_trips_def)
  have w12: "wf_ExtraFee (RouteSummary.ExtraFee x)"
    using wf by (simp add: wf_RouteSummary_def)
  have r12: "round_trips encode_ExtraFee decode_ExtraFee (RouteSummary.ExtraFee x)"
    using w12 by (simp add: ExtraFee_round_trip)
  from r12 obtain j12 where e12: "encode_ExtraFee (RouteSummary.ExtraFee x) = Inr j12"
    and d12: "\<And>old. decode_ExtraFee j12 old = Inr (RouteSummary.ExtraFee x)"
    by (auto simp: round_trips_def)
  have w13: "slice_all (slice_all wf_Route) (RouteSummary.Route x)"
    using wf by (simp add: wf_RouteSummary_def)
  have i13: "slice_all (round_trips (encode_slice (encode_Route sc)) (decode_slice (decode_Route sc) zero_Route)) (RouteSummary.Route x)"
    using w13 Route_round_trip [OF sc] by (auto elim!: slice_all_mono [rotated] intro!: slice_round_trip)
  have r13: "round_trips (encode_slice (encode_slice (encode_Route sc))) (decode_slice (decode_slice (decode_Route sc) zero_Route) None) (RouteSummary.Route x)"
    by (rule slice_round_trip [OF i13])
  from r13 obtain j13 where e13: "(encode_slice (encode_slice (encode_Route sc))) (RouteSummary.Route x) = Inr j13"
    and d13: "\<And>old. (decode_slice (decode_slice (decode_Route sc) zero_Route) None) j13 old = Inr (RouteSummary.Route x)"
    by (auto simp: round_trips_def)
  let ?j = "JObject
      [(''tokenIn'', j1),
       (''amountIn'', j2),
       (''amountInUsd'', j3),
       (''tokenInMarketPriceAvailable'', j4),
       (''tokenOut'', j5),
       (''amountOut'', j6),
       (''amountOutUsd'', j7),
       (''tokenOutMarketPriceAvailable'', j8),
       (''gas'', j9),
       (''gasPrice'', j10),
       (''gasUsd'', j11),
       (''extraFee'', j12),
       (''route'', j13)]"
  have enc: "encode_RouteSummary sc x = Inr ?j"
    by (simp add: encode_RouteSummary_def encode_struct_def e1 e2 e3 e4 e5 e6 e7 e8 e9 e10 e11 e12 e13)
  have dec: "decode_RouteSummary sc ?j old = Inr x" for old
    by (simp add: decode_RouteSummary_def decode_struct_def RouteSummary_fields_def find_field_def field_def
        d1 d2 d3 d4 d5 d6 d7 d8 d9 d10 d11 d12 d13)
  show ?thesis
    unfolding round_trips_def using enc dec by blast
qed

lemma BuildRouteRequest_round_trip:
  assumes sc: "\<forall>f. float64_finite f \<longrightarrow> ParseFloat sc (FormatFloat sc f) = Some f"
    and wf: "wf_BuildRouteRequest x"
  shows "round_trips (encode_BuildRouteRequest sc) (decode_BuildRouteRequest sc) x"
proof -
  have w1: "wf_RouteSummary (BuildRouteRequest.RouteSummary x)"
    using wf by (simp add: wf_BuildRouteRequest_def)
  have r1: "round_trips (encode_RouteSummary sc) (decode_RouteSummary sc) (BuildRouteRequest.RouteSummary x)"
    using w1 by (simp add: RouteSummary_round_trip [OF sc])
  from r1 obtain j1 where e1: "(encode_RouteSummary sc) (BuildRouteRequest.RouteSummary x) = Inr j1"
    and d1: "\<And>old. (decode_RouteSummary sc) j1 old = Inr (BuildRouteRequest.RouteSummary x)"
    by (auto simp: round_trips_def)
  have w2: "ValidString (BuildRouteRequest.Sender x)"
    using wf by (simp add: wf_BuildRouteRequest_def)
  have r2: "round_trips encode_string decode_string (BuildRouteRequest.Sender x)"
    using w2 by (simp add: string_round_trip)
  from r2 obtain j2 where e2: "encode_string (BuildRouteRequest.Sender x) = Inr j2"
    and d2: "\<And>old. decode_string j2 old = Inr (BuildRouteRequest.Sender x)"
    by (auto simp: round_trips_def)
  have w3: "ValidString (BuildRouteRequest.Recipient x)"
    using wf by (simp add: wf_BuildRouteRequest_def)
  have r3: "round_trips encode_string decode_string (BuildRouteRequest.Recipient x)"
    using w3 by (simp add: string_round_trip)
  from r3 obtain j3 where e3: "encode_string (BuildRouteRequest.Recipient x) = Inr j3"
    and d3: "\<And>old. decode_string j3 old = Inr (BuildRouteRequest.Recipient x)"
    by (auto simp: round_trips_def)
  have r4: "round_trips encode_int64 decode_int64 (BuildRouteRequest.Deadline x)"
    by (rule int64_round_trip)
  from r4 obtain j4 where e4: "encode_int64 (BuildRouteRequest.Deadline x) = Inr j4"
    and d4: "\<And>old. decode_int64 j4 old = Inr (BuildRouteRequest.Deadline x)"
    by (auto simp: round_trips_def)
  have r5: "round_trips encode_int64 decode_int64 (BuildRouteRequest.SlippageTolerance x)"
    by (rule int64_round_trip)
  from r5 obtain j5 where e5: "encode_int64 (BuildRouteRequest.SlippageTolerance x) = Inr j5"
    and d5: "\<And>old. decode_int64 j5 old = Inr (BuildRouteRequest.SlippageTolerance x)"
    by (auto simp: round_trips_def)
  let ?j = "JObject
      [(''routeSummary'', j1),
       (''sender'', j2),
       (''recipient'', j3),
       (''deadline'', j4),
       (''slippageTolerance'', j5)]"
  have enc: "encode_BuildRouteRequest sc x = Inr ?j"
    by (simp add: encode_BuildRouteRequest_def encode_struct_def e1 e2 e3 e4 e5)
  have dec: "decode_BuildRouteRequest sc ?j old = Inr x" for old
    by (simp add: decode_BuildRouteRequest_def decode_struct_def BuildRouteRequest_fields_def find_field_def field_def
        d1 d2 d3 d4 d5)
  show ?thesis
    unfolding round_trips_def using enc dec by blast
qed

lemma encode_nan_QuoteRequest:
  "encode_QuoteRequest stub_strconv nan_QuoteRequest
     = Inl (Error ''json: unsupported value: NaN'' None)"
proof -
  have nf: "\<not> float64_finite (0x7FF8000000000001 :: float64)"
    by (simp add: float64_finite_def)
  have g: "float64_g (0x7FF8000000000001 :: float64) = ''NaN''"
    by (simp add: float64_g_def)
  show ?thesis
    by (simp add: encode_QuoteRequest_def encode_struct_def nan_QuoteRequest_def
        zero_QuoteRequest_def encode_int64_def encode_slice_def encode_float64_def nf g
        UnsupportedValueError_def)
qed

lemma stub_strconv_round_trip:
  "\<forall>f. float64_finite f \<longrightarrow> ParseFloat stub_strconv (FormatFloat stub_strconv f) = Some f"
  by (simp add: stub_strconv_def ParseInt64_fmt_d)

lemma wf_test_QuoteRequest: "wf_QuoteRequest test_QuoteRequest"
  by code_simp

lemma wf_test_AssembleRequest: "wf_AssembleRequest test_AssembleRequest"
  by code_simp

lemma wf_example_BuildRouteRequest: "wf_BuildRouteRequest example_BuildRouteRequest"
  by code_simp

section \<open>Constructors\<close>

text \<open>
  C7. \<open>odos.NewClient\<close> with an empty base URL yields a client whose base URL is
  \<open>https://api.odos.xyz\<close>. \<open>kyberswap.NewClient\<close> with an empty base URL and an empty
  chain yields a client whose base URL is
  \<open>https://aggregator-api.kyberswap.com/ethereum\<close>; in general its base URL is the given
  or defaulted base URL, then \<open>/\<close>, then the given or defaulted chain. The base URL is
  read through the returned pointer in the returned store.
\<close>

theorem NewClient_defaults:
  "(case odos_NewClient s [] of (c, s') \<Rightarrow> map_option OdosClient.baseURL (load (clients s') c))
     = Some ''https://api.odos.xyz''
   \<and> (case odos_NewClient s b of (c, s') \<Rightarrow> map_option OdosClient.baseURL (load (clients s') c))
     = Some (if b = [] then ''https://api.odos.xyz'' else b)
   \<and> (case kyberswap_NewClient t [] [] of (c, t') \<Rightarrow> map_option baseURL (load (clients t') c))
     = Some ''https://aggregator-api.kyberswap.com/ethereum''
   \<and> (case kyberswap_NewClient t b ch of (c, t') \<Rightarrow> map_option baseURL (load (clients t') c))
     = Some ((if b = [] then ''https://aggregator-api.kyberswap.com'' else b) @ ''/''
             @ (if ch = [] then ''ethereum'' else ch))"
  by (simp add: odos_NewClient_def kyberswap_NewClient_def alloc_def load_def Let_def
      odos_baseURL_def kyberswap_baseURL_def)

section \<open>KyberSwap: the build request\<close>

text \<open>
  C1. Whatever the arguments, the requests \<open>BuildRoute\<close> issues are fixed by one record:
  the route summary, sender and recipient it was given, \<open>Deadline\<close> equal to the Unix
  time read at the call plus 72000 seconds (\<open>20*3600\<close>, added as \<open>int64\<close>) and
  \<open>SlippageTolerance\<close> equal to 10. It marshals that record; if that fails it returns the
  marshalling error and issues nothing, and if the request is accepted it issues exactly one
  POST whose body is what marshalling that record gave.
\<close>

theorem BuildRoute_deadline_slippage:
  "sent (BuildRoute env c rs sender recipient) =
     (case Marshal_BuildRouteRequest env
             \<lparr>RouteSummary = rs, Sender = sender, Recipient = recipient,
              Deadline = Unix_now env + 72000, SlippageTolerance = 10\<rparr> of
        Inl e \<Rightarrow> []
      | Inr jsonBody \<Rightarrow>
          (case NewRequest_err env ''POST'' (baseURL c @ ''/api/v1/route/build'') of
             Some e \<Rightarrow> []
           | None \<Rightarrow>
               [\<lparr>Method = ''POST'', URL = baseURL c @ ''/api/v1/route/build'',
                 Header = [''Content-Type'' \<mapsto> ''application/json''],
                 ReqBody = Some jsonBody\<rparr>]))
   \<and> (\<forall>e. Marshal_BuildRouteRequest env
               \<lparr>RouteSummary = rs, Sender = sender, Recipient = recipient,
                Deadline = Unix_now env + 72000, SlippageTolerance = 10\<rparr> = Inl e
          \<longrightarrow> BuildRoute env c rs sender recipient
                = fail [] (Errorf_w ''error marshaling request: '' e))"
  using BuildRoute_sent [of env c rs sender recipient] BuildRoute_marshal_failure [of env rs sender recipient]
  by blast

theorem BuildRoute_deadline_slippage_witness:
  "sent (BuildRoute ((stub_kyberswap_env 200 ''{}'')
                        \<lparr>Marshal_BuildRouteRequest := stub_marshal_deadline\<rparr>)
           stub_KyberSwapClient zero_RouteSummary ''0xS'' ''0xR'')
     = [\<lparr>Method = ''POST'',
         URL = ''https://aggregator-api.kyberswap.com/ethereum/api/v1/route/build'',
         Header = [''Content-Type'' \<mapsto> ''application/json''],
         ReqBody = Some ''1700072000,10''\<rparr>]
   \<and> BuildRoute ((stub_kyberswap_env 200 ''{}'')
                   \<lparr>Marshal_BuildRouteRequest :=
                      (\<lambda>req. Inl (Error ''json: unsupported value: NaN'' None))\<rparr>)
        stub_KyberSwapClient zero_RouteSummary ''0xS'' ''0xR''
     = fail [] (Errorf_w ''error marshaling request: ''
                  (Error ''json: unsupported value: NaN'' None))"
proof -
  let ?env = "(stub_kyberswap_env 200 ''{}'')\<lparr>Marshal_BuildRouteRequest := stub_marshal_deadline\<rparr>"
  let ?bad = "(stub_kyberswap_env 200 ''{}'')
                \<lparr>Marshal_BuildRouteRequest :=
                   (\<lambda>req. Inl (Error ''json: unsupported value: NaN'' None))\<rparr>"
  have mb: "Marshal_BuildRouteRequest ?bad r = Inl (Error ''json: unsupported value: NaN'' None)"
    for r
    by simp
  from BuildRoute_deadline_slippage [of ?bad stub_KyberSwapClient zero_RouteSummary "''0xS''"
      "''0xR''"]
  have "\<forall>e. Marshal_BuildRouteRequest ?bad
               \<lparr>RouteSummary = zero_RouteSummary, Sender = ''0xS'', Recipient = ''0xR'',
                Deadline = Unix_now ?bad + 72000, SlippageTolerance = 10\<rparr> = Inl e
          \<longrightarrow> BuildRoute ?bad stub_KyberSwapClient zero_RouteSummary ''0xS'' ''0xR''
                = fail [] (Errorf_w ''error marshaling request: '' e)"
    by blast
  then have failing: "BuildRoute ?bad stub_KyberSwapClient zero_RouteSummary ''0xS'' ''0xR''
     = fail [] (Errorf_w ''error marshaling request: ''
                  (Error ''json: unsupported value: NaN'' None))"
    using mb by blast
  have m: "Marshal_BuildRouteRequest ?env
             \<lparr>RouteSummary = zero_RouteSummary, Sender = ''0xS'', Recipient = ''0xR'',
              Deadline = Unix_now ?env + 72000, SlippageTolerance = 10\<rparr>
           = Inr ''1700072000,10''"
    by (simp add: stub_kyberswap_env_def stub_marshal_deadline_def fmt_d_def)
  have n: "NewRequest_err ?env ''POST'' url = None" for url
    by (simp add: stub_kyberswap_env_def)
  have u: "baseURL stub_KyberSwapClient @ ''/api/v1/route/build''
           = ''https://aggregator-api.kyberswap.com/ethereum/api/v1/route/build''"
    by (simp add: stub_KyberSwapClient_def kyberswap_baseURL_def)
  from BuildRoute_deadline_slippage [of ?env stub_KyberSwapClient zero_RouteSummary "''0xS''" "''0xR''"]
  have "sent (BuildRoute ?env stub_KyberSwapClient zero_RouteSummary ''0xS'' ''0xR'') =
     (case Marshal_BuildRouteRequest ?env
             \<lparr>RouteSummary = zero_RouteSummary, Sender = ''0xS'', Recipient = ''0xR'',
              Deadline = Unix_now ?env + 72000, SlippageTolerance = 10\<rparr> of
        Inl e \<Rightarrow> []
      | Inr jsonBody \<Rightarrow>
          (case NewRequest_err ?env ''POST'' (baseURL stub_KyberSwapClient @ ''/api/v1/route/build'') of
             Some e \<Rightarrow> []
           | None \<Rightarrow>
               [\<lparr>Method = ''POST'', URL = baseURL stub_KyberSwapClient @ ''/api/v1/route/build'',
                 Header = [''Content-Type'' \<mapsto> ''application/json''],
                 ReqBody = Some jsonBody\<rparr>]))"
    by blast
  then have issued: "sent (BuildRoute ?env stub_KyberSwapClient zero_RouteSummary ''0xS'' ''0xR'')
     = [\<lparr>Method = ''POST'',
         URL = ''https://aggregator-api.kyberswap.com/ethereum/api/v1/route/build'',
         Header = [''Content-Type'' \<mapsto> ''application/json''],
         ReqBody = Some ''1700072000,10''\<rparr>]"
    by (simp only: m n u sum.case option.case)
  show ?thesis
    by (rule conjI [OF issued failing])
qed

section \<open>KyberSwap: the timeout\<close>

text \<open>
  C9. On a client whose two pointers are valid, \<open>WithTimeout d\<close> returns the very
  pointer it was called on, the \<open>http.Client\<close> cell it points to has timeout \<open>d\<close> and is
  otherwise as before, every other \<open>http.Client\<close> cell is untouched, and the client
  cells, with them the base URL, are unchanged.
\<close>

theorem WithTimeout_frame:
  assumes "load (clients s) c = Some k" and "httpClient k = Some i"
    and "i < length (http_Clients s)"
  shows "\<exists>s'. WithTimeout s c d = Some (c, s')
           \<and> clients s' = clients s
           \<and> map_option baseURL (load (clients s') c) = Some (baseURL k)
           \<and> length (http_Clients s') = length (http_Clients s)
           \<and> http_Clients s' ! i = (http_Clients s ! i)\<lparr>Timeout := d\<rparr>
           \<and> map_option Timeout (load (http_Clients s') (httpClient k)) = Some d
           \<and> (\<forall>j. j \<noteq> i \<longrightarrow> http_Clients s' ! j = http_Clients s ! j)"
proof -
  let ?s' = "s\<lparr>http_Clients := (http_Clients s)[i := (http_Clients s ! i)\<lparr>Timeout := d\<rparr>]\<rparr>"
  have run: "WithTimeout s c d = Some (c, ?s')"
    using assms by (simp add: WithTimeout_def)
  have same: "clients ?s' = clients s"
    by simp
  have cell: "http_Clients ?s' ! i = (http_Clients s ! i)\<lparr>Timeout := d\<rparr>"
    using assms(3) by simp
  have timeout: "map_option Timeout (load (http_Clients ?s') (httpClient k)) = Some d"
    using assms(2,3) by (simp add: load_def)
  have others: "\<forall>j. j \<noteq> i \<longrightarrow> http_Clients ?s' ! j = http_Clients s ! j"
    by simp
  show ?thesis
    using run same cell timeout others assms(1) by simp
qed

theorem WithTimeout_frame_witness:
  "load (clients (snd (kyberswap_NewClient \<lparr>http_Clients = [], clients = []\<rparr> [] []))) (Some 0)
     = Some stub_KyberSwapClient
   \<and> httpClient stub_KyberSwapClient = Some 0
   \<and> 0 < length (http_Clients (snd (kyberswap_NewClient \<lparr>http_Clients = [], clients = []\<rparr> [] [])))
   \<and> (\<exists>s'. WithTimeout (snd (kyberswap_NewClient \<lparr>http_Clients = [], clients = []\<rparr> [] []))
              (Some 0) (30 * Second) = Some (Some 0, s')
           \<and> clients s' = [stub_KyberSwapClient]
           \<and> http_Clients s' = [\<lparr>Timeout = 30 * Second\<rparr>])"
proof -
  let ?s = "snd (kyberswap_NewClient \<lparr>http_Clients = [], clients = []\<rparr> [] [])"
  have s: "?s = \<lparr>http_Clients = [\<lparr>Timeout = 10 * Second\<rparr>], clients = [stub_KyberSwapClient]\<rparr>"
    by (simp add: kyberswap_NewClient_def alloc_def stub_KyberSwapClient_def kyberswap_baseURL_def)
  have h1: "load (clients ?s) (Some 0) = Some stub_KyberSwapClient"
    unfolding s by (simp add: load_def)
  have h2: "httpClient stub_KyberSwapClient = Some 0"
    by (simp add: stub_KyberSwapClient_def)
  have h3: "0 < length (http_Clients ?s)"
    unfolding s by simp
  from WithTimeout_frame [OF h1 h2 h3, of "30 * Second"]
  obtain s' where r: "WithTimeout ?s (Some 0) (30 * Second) = Some (Some 0, s')"
    and c: "clients s' = clients ?s"
    and l: "length (http_Clients s') = length (http_Clients ?s)"
    and t: "http_Clients s' ! 0 = (http_Clients ?s ! 0)\<lparr>Timeout := 30 * Second\<rparr>"
    by blast
  have "http_Clients s' = [\<lparr>Timeout = 30 * Second\<rparr>]"
    using l t unfolding s by (cases "http_Clients s'") simp_all
  moreover have "clients s' = [stub_KyberSwapClient]"
    using c unfolding s by simp
  ultimately show ?thesis
    using h1 h2 h3 r by blast
qed

section \<open>Odos: the status check of Assemble\<close>




section \<open>KyberSwap: the status check of GetRoutes\<close>



section \<open>Odos: methods without a status check\<close>

text \<open>
  C4, counterexample. \<open>Quote\<close> on a request whose gas price is NaN: marshalling fails, so
  \<open>Quote\<close> fails before any request is issued, with an error that is neither a transport
  nor a decode error.
\<close>

theorem Quote_marshal_failure_counterexample:
  "ret (Quote stub_odos_env_marshal stub_OdosClient (Some nan_QuoteRequest)) = None
   \<and> err (Quote stub_odos_env_marshal stub_OdosClient (Some nan_QuoteRequest))
       = Some (Error ''failed to marshal request: json: unsupported value: NaN''
                 (Some (Error ''json: unsupported value: NaN'' None)))
   \<and> sent (Quote stub_odos_env_marshal stub_OdosClient (Some nan_QuoteRequest)) = []"
proof -
  have nf: "\<not> float64_finite (0x7FF8000000000001 :: float64)"
    by (simp add: float64_finite_def)
  have g: "float64_g (0x7FF8000000000001 :: float64) = ''NaN''"
    by (simp add: float64_g_def)
  have m: "encode_QuoteRequest stub_strconv nan_QuoteRequest
             = Inl (Error ''json: unsupported value: NaN'' None)"
    by (simp add: encode_QuoteRequest_def encode_struct_def nan_QuoteRequest_def
        zero_QuoteRequest_def encode_int64_def encode_slice_def encode_float64_def nf g
        UnsupportedValueError_def)
  show ?thesis
    by (simp add: Quote_def stub_odos_env_marshal_def stub_odos_env_def m fail_def Let_def
        Errorf_w_def)
qed

text \<open>
  C4, as amended. \<open>GetTokenPrice\<close> and \<open>Quote\<close> never look at the status code: replacing
  the status of whatever the vendor answers by any other status \<open>st\<close> changes nothing. Each
  succeeds exactly when there is a response to its request whose body decodes, and then
  returns the decoded record. \<open>GetTokenPrice\<close> fails only with the error of the HTTP
  client's \<open>Get\<close> or with the decode error. \<open>Quote\<close> fails only with the marshalling error
  or the error of building the request, both before any request is issued, or with the
  transport error or the decode error.
\<close>

theorem no_status_check:
  "GetTokenPrice (env\<lparr>Do := \<lambda>r. case Do env r of Inl e \<Rightarrow> Inl e
                                   | Inr resp \<Rightarrow> Inr (resp\<lparr>StatusCode := st\<rparr>)\<rparr>) c chainID tokenAddr
     = GetTokenPrice env c chainID tokenAddr
   \<and> Quote (env\<lparr>Do := \<lambda>r. case Do env r of Inl e \<Rightarrow> Inl e
                             | Inr resp \<Rightarrow> Inr (resp\<lparr>StatusCode := st\<rparr>)\<rparr>) c r
     = Quote env c r
   \<and> ((ret (GetTokenPrice env c chainID tokenAddr) \<noteq> None
        \<or> err (GetTokenPrice env c chainID tokenAddr) = None)
       = (\<exists>req resp priceResp.
            sent (GetTokenPrice env c chainID tokenAddr) = [req]
            \<and> Do env req = Inr resp
            \<and> Decode_PriceResponse env (Body resp) zero_PriceResponse = Inr priceResp
            \<and> GetTokenPrice env c chainID tokenAddr = succeed [req] priceResp))
   \<and> ((ret (Quote env c r) \<noteq> None \<or> err (Quote env c r) = None)
       = (\<exists>req resp quoteResp.
            sent (Quote env c r) = [req]
            \<and> Do env req = Inr resp
            \<and> Decode_QuoteResponse env (Body resp) zero_QuoteResponse = Inr quoteResp
            \<and> Quote env c r = succeed [req] quoteResp))
   \<and> (\<forall>e. err (GetTokenPrice env c chainID tokenAddr) = Some e \<longrightarrow>
         ret (GetTokenPrice env c chainID tokenAddr) = None
         \<and> ((\<exists>t. Client_Get env (OdosClient.baseURL c @ ''/pricing/token/'' @ chainID @ ''/''
                                   @ tokenAddr)
                    = (sent (GetTokenPrice env c chainID tokenAddr), Inl t)
                  \<and> e = Errorf_w ''failed to get token price: '' t)
              \<or> (\<exists>req resp d. sent (GetTokenPrice env c chainID tokenAddr) = [req]
                    \<and> Do env req = Inr resp
                    \<and> Decode_PriceResponse env (Body resp) zero_PriceResponse = Inl d
                    \<and> e = Errorf_w ''failed to decode response: '' d)))
   \<and> (\<forall>e. err (Quote env c r) = Some e \<longrightarrow>
         ret (Quote env c r) = None
         \<and> ((\<exists>m. Marshal_QuoteRequest env r = Inl m \<and> sent (Quote env c r) = []
                  \<and> e = Errorf_w ''failed to marshal request: '' m)
              \<or> (\<exists>n. NewRequest_err env ''POST'' (OdosClient.baseURL c @ ''/sor/quote/v2'') = Some n
                    \<and> sent (Quote env c r) = []
                    \<and> e = Errorf_w ''failed to create request: '' n)
              \<or> (\<exists>req t. sent (Quote env c r) = [req] \<and> Do env req = Inl t
                    \<and> e = Errorf_w ''failed to get quote: '' t)
              \<or> (\<exists>req resp d. sent (Quote env c r) = [req] \<and> Do env req = Inr resp
                    \<and> Decode_QuoteResponse env (Body resp) zero_QuoteResponse = Inl d
                    \<and> e = Errorf_w ''failed to decode response: '' d)))"
proof -
  have gf: "\<forall>e. err (GetTokenPrice env c chainID tokenAddr) = Some e \<longrightarrow>
         ret (GetTokenPrice env c chainID tokenAddr) = None
         \<and> ((\<exists>t. Client_Get env (OdosClient.baseURL c @ ''/pricing/token/'' @ chainID @ ''/''
                                   @ tokenAddr)
                    = (sent (GetTokenPrice env c chainID tokenAddr), Inl t)
                  \<and> e = Errorf_w ''failed to get token price: '' t)
              \<or> (\<exists>req resp d. sent (GetTokenPrice env c chainID tokenAddr) = [req]
                    \<and> Do env req = Inr resp
                    \<and> Decode_PriceResponse env (Body resp) zero_PriceResponse = Inl d
                    \<and> e = Errorf_w ''failed to decode response: '' d))"
    using GetTokenPrice_failures [of env c chainID tokenAddr] by blast
  have qf: "\<forall>e. err (Quote env c r) = Some e \<longrightarrow>
         ret (Quote env c r) = None
         \<and> ((\<exists>m. Marshal_QuoteRequest env r = Inl m \<and> sent (Quote env c r) = []
                  \<and> e = Errorf_w ''failed to marshal request: '' m)
              \<or> (\<exists>n. NewRequest_err env ''POST'' (OdosClient.baseURL c @ ''/sor/quote/v2'') = Some n
                    \<and> sent (Quote env c r) = []
                    \<and> e = Errorf_w ''failed to create request: '' n)
              \<or> (\<exists>req t. sent (Quote env c r) = [req] \<and> Do env req = Inl t
                    \<and> e = Errorf_w ''failed to get quote: '' t)
              \<or> (\<exists>req resp d. sent (Quote env c r) = [req] \<and> Do env req = Inr resp
                    \<and> Decode_QuoteResponse env (Body resp) zero_QuoteResponse = Inl d
                    \<and> e = Errorf_w ''failed to decode response: '' d))"
    using Quote_failures [of env c r] by blast
  show ?thesis
    by (intro conjI GetTokenPrice_any_status Quote_any_status GetTokenPrice_total Quote_total gf qf)
qed

theorem no_status_check_witness:
  "GetTokenPrice (stub_odos_env 404 ''{}'') stub_OdosClient ''1'' ''0xdai''
     = succeed [\<lparr>Method = ''GET'', URL = ''https://api.odos.xyz/pricing/token/1/0xdai'',
         Header = Map.empty, ReqBody = None\<rparr>] zero_PriceResponse
   \<and> err (Quote (stub_odos_env 500 ''busy'') stub_OdosClient None)
       = Some (Errorf_w ''failed to decode response: '' (Error ''invalid character'' None))
   \<and> ret (Quote (stub_odos_env 500 ''busy'') stub_OdosClient None) = None
   \<and> err (GetTokenPrice (stub_odos_env 200 ''busy'') stub_OdosClient ''1'' ''0xdai'')
       = Some (Errorf_w ''failed to decode response: '' (Error ''invalid character'' None))
   \<and> ret (GetTokenPrice (stub_odos_env 200 ''busy'') stub_OdosClient ''1'' ''0xdai'') = None"
proof -
  let ?p = "GetTokenPrice (stub_odos_env 200 ''busy'') stub_OdosClient ''1'' ''0xdai''"
  note v = no_status_check [where env = "stub_odos_env 200 ''busy''" and st = 0
      and c = stub_OdosClient and chainID = "''1''" and tokenAddr = "''0xdai''" and r = None]
  have "\<exists>e. err ?p = Some e"
    by (simp add: GetTokenPrice_def Client_Get_def stub_odos_env_def stub_OdosClient_def
        NewRequest_def fail_def succeed_def Let_def odos_baseURL_def stub_decode_def)
  then obtain pe where pe: "err ?p = Some pe"
    by blast
  have ng: "\<And>url s t. Client_Get (stub_odos_env 200 ''busy'') url \<noteq> (s, Inl t)"
    by (simp add: Client_Get_def NewRequest_def stub_odos_env_def)
  from v pe have "ret ?p = None
      \<and> ((\<exists>t. Client_Get (stub_odos_env 200 ''busy'')
                   (OdosClient.baseURL stub_OdosClient @ ''/pricing/token/'' @ ''1'' @ ''/''
                      @ ''0xdai'')
                 = (sent ?p, Inl t)
               \<and> pe = Errorf_w ''failed to get token price: '' t)
           \<or> (\<exists>req resp d. sent ?p = [req]
                 \<and> Do (stub_odos_env 200 ''busy'') req = Inr resp
                 \<and> Decode_PriceResponse (stub_odos_env 200 ''busy'') (Body resp)
                      zero_PriceResponse = Inl d
                 \<and> pe = Errorf_w ''failed to decode response: '' d))"
    by blast
  with ng obtain preq presp pd where pn: "ret ?p = None"
    and p2: "Do (stub_odos_env 200 ''busy'') preq = Inr presp"
    and p3: "Decode_PriceResponse (stub_odos_env 200 ''busy'') (Body presp) zero_PriceResponse
               = Inl pd"
    and p4: "pe = Errorf_w ''failed to decode response: '' pd"
    by auto
  from p2 have presp: "presp = \<lparr>StatusCode = 200, Body = Stream ''busy'' None\<rparr>"
    by (simp add: stub_odos_env_def)
  from p3 have "pd = Error ''invalid character'' None"
    unfolding presp by (simp add: stub_odos_env_def stub_decode_def)
  with p4 pe pn have price_fails:
    "err ?p = Some (Errorf_w ''failed to decode response: '' (Error ''invalid character'' None))
     \<and> ret ?p = None"
    by simp
  let ?greq = "\<lparr>Method = ''GET'', URL = ''https://api.odos.xyz/pricing/token/1/0xdai'',
         Header = Map.empty, ReqBody = None\<rparr>"
  let ?g = "GetTokenPrice (stub_odos_env 404 ''{}'') stub_OdosClient ''1'' ''0xdai''"
  let ?q = "Quote (stub_odos_env 500 ''busy'') stub_OdosClient None"
  note t = no_status_check [where env = "stub_odos_env 404 ''{}''" and st = 0
      and c = stub_OdosClient and chainID = "''1''" and tokenAddr = "''0xdai''" and r = None]
  note u = no_status_check [where env = "stub_odos_env 500 ''busy''" and st = 0
      and c = stub_OdosClient and chainID = "''1''" and tokenAddr = "''0xdai''" and r = None]
  have ge: "err ?g = None"
    by (simp add: GetTokenPrice_def Client_Get_def stub_odos_env_def stub_OdosClient_def
        NewRequest_def fail_def succeed_def Let_def odos_baseURL_def stub_decode_def)
  have gs: "sent ?g = [?greq]"
    by (simp add: GetTokenPrice_def Client_Get_def stub_odos_env_def stub_OdosClient_def
        NewRequest_def fail_def succeed_def Let_def odos_baseURL_def split: sum.splits)
  from t ge obtain req resp priceResp where
    g1: "sent ?g = [req]" and g2: "Do (stub_odos_env 404 ''{}'') req = Inr resp"
    and g3: "Decode_PriceResponse (stub_odos_env 404 ''{}'') (Body resp) zero_PriceResponse
               = Inr priceResp"
    and g4: "?g = succeed [req] priceResp"
    by blast
  from g1 gs have req: "req = ?greq"
    by simp
  from g2 have resp: "resp = \<lparr>StatusCode = 404, Body = Stream ''{}'' None\<rparr>"
    by (simp add: stub_odos_env_def)
  from g3 have "priceResp = zero_PriceResponse"
    unfolding resp by (simp add: stub_odos_env_def stub_decode_def)
  with g4 req have g: "?g = succeed [?greq] zero_PriceResponse"
    by simp
  have qe: "\<exists>e. err ?q = Some e"
    by (simp add: Quote_def stub_odos_env_def stub_OdosClient_def NewRequest_def fail_def
        succeed_def Let_def odos_baseURL_def stub_decode_def)
  then obtain e where e: "err ?q = Some e"
    by blast
  have nm: "\<And>m. Marshal_QuoteRequest (stub_odos_env 500 ''busy'') None \<noteq> Inl m"
    and nn: "\<And>url. NewRequest_err (stub_odos_env 500 ''busy'') ''POST'' url = None"
    and nd: "\<And>req t. Do (stub_odos_env 500 ''busy'') req \<noteq> Inl t"
    by (simp_all add: stub_odos_env_def)
  from u e have "ret ?q = None
      \<and> ((\<exists>m. Marshal_QuoteRequest (stub_odos_env 500 ''busy'') None = Inl m \<and> sent ?q = []
               \<and> e = Errorf_w ''failed to marshal request: '' m)
           \<or> (\<exists>n. NewRequest_err (stub_odos_env 500 ''busy'') ''POST''
                     (OdosClient.baseURL stub_OdosClient @ ''/sor/quote/v2'') = Some n
                 \<and> sent ?q = [] \<and> e = Errorf_w ''failed to create request: '' n)
           \<or> (\<exists>req t. sent ?q = [req] \<and> Do (stub_odos_env 500 ''busy'') req = Inl t
                 \<and> e = Errorf_w ''failed to get quote: '' t)
           \<or> (\<exists>req resp d. sent ?q = [req] \<and> Do (stub_odos_env 500 ''busy'') req = Inr resp
                 \<and> Decode_QuoteResponse (stub_odos_env 500 ''busy'') (Body resp)
                      zero_QuoteResponse = Inl d
                 \<and> e = Errorf_w ''failed to decode response: '' d))"
    by blast
  with nm nn nd obtain req' resp' d where rn: "ret ?q = None"
    and q2: "Do (stub_odos_env 500 ''busy'') req' = Inr resp'"
    and q3: "Decode_QuoteResponse (stub_odos_env 500 ''busy'') (Body resp') zero_QuoteResponse
               = Inl d"
    and q4: "e = Errorf_w ''failed to decode response: '' d"
    by auto
  from q2 have resp': "resp' = \<lparr>StatusCode = 500, Body = Stream ''busy'' None\<rparr>"
    by (simp add: stub_odos_env_def)
  from q3 have "d = Error ''invalid character'' None"
    unfolding resp' by (simp add: stub_odos_env_def stub_decode_def)
  with q4 e rn g price_fails show ?thesis
    by simp
qed

text \<open>
  C3, counterexample. The vendor answers 200 with the body \<open>{}\<close>: \<open>GetTokenPrice\<close>
  returns a price record and a nil error, and the record's currency identifier is empty.
\<close>

theorem GetTokenPrice_empty_currency_counterexample:
  "ret (GetTokenPrice (stub_odos_env 200 ''{}'') stub_OdosClient ''1'' ''0xdai'')
     = Some \<lparr>CurrencyId = [], Price = 0\<rparr>
   \<and> err (GetTokenPrice (stub_odos_env 200 ''{}'') stub_OdosClient ''1'' ''0xdai'') = None"
  by (simp add: GetTokenPrice_def Client_Get_def stub_odos_env_def stub_OdosClient_def
      NewRequest_def fail_def succeed_def Let_def odos_baseURL_def stub_decode_def
      zero_PriceResponse_def)

text \<open>
  C3, as amended. \<open>GetTokenPrice\<close> returns either a nil record with a non-nil error, or
  a record with a nil error, never both nil and never both set. A returned record is
  exactly what the decoder made of the response body; its currency identifier is not
  examined.
\<close>

theorem GetTokenPrice_result:
  "(\<exists>e. ret (GetTokenPrice env c chainID tokenAddr) = None
        \<and> err (GetTokenPrice env c chainID tokenAddr) = Some e)
   \<or> (\<exists>p req resp. ret (GetTokenPrice env c chainID tokenAddr) = Some p
        \<and> err (GetTokenPrice env c chainID tokenAddr) = None
        \<and> sent (GetTokenPrice env c chainID tokenAddr) = [req]
        \<and> Do env req = Inr resp
        \<and> Decode_PriceResponse env (Body resp) zero_PriceResponse = Inr p)"
  by (auto simp: GetTokenPrice_def Client_Get_def NewRequest_def fail_def succeed_def Let_def
      split: sum.splits option.splits if_splits)

section \<open>Odos: request headers\<close>

text \<open>
  C8, counterexample. The one request \<open>GetTokenPrice\<close> issues is a GET that carries none of
  the headers \<open>Content-Type\<close>, \<open>Accept\<close>, \<open>Origin\<close> and \<open>Referer\<close>.
\<close>

theorem GetTokenPrice_headers_counterexample:
  "length (sent (GetTokenPrice (stub_odos_env 200 ''{}'') stub_OdosClient ''1'' ''0xdai'')) = 1
   \<and> Method (hd (sent (GetTokenPrice (stub_odos_env 200 ''{}'') stub_OdosClient ''1'' ''0xdai'')))
       = ''GET''
   \<and> Header (hd (sent (GetTokenPrice (stub_odos_env 200 ''{}'') stub_OdosClient ''1'' ''0xdai'')))
        ''Content-Type'' = None
   \<and> Header (hd (sent (GetTokenPrice (stub_odos_env 200 ''{}'') stub_OdosClient ''1'' ''0xdai'')))
        ''Accept'' = None
   \<and> Header (hd (sent (GetTokenPrice (stub_odos_env 200 ''{}'') stub_OdosClient ''1'' ''0xdai'')))
        ''Origin'' = None
   \<and> Header (hd (sent (GetTokenPrice (stub_odos_env 200 ''{}'') stub_OdosClient ''1'' ''0xdai'')))
        ''Referer'' = None"
  by (simp add: GetTokenPrice_def Client_Get_def stub_odos_env_def stub_OdosClient_def
      NewRequest_def fail_def succeed_def Let_def odos_baseURL_def stub_decode_def)

text \<open>
  C8, as amended. Every request that \<open>Quote\<close> and \<open>Assemble\<close> issue carries
  \<open>Content-Type: application/json\<close>, \<open>Accept: */*\<close>, \<open>Origin: https://app.odos.xyz\<close> and
  \<open>Referer: https://app.odos.xyz/\<close>. Every request that \<open>GetTokenPrice\<close> issues is a GET
  on which this code sets no header.
\<close>

theorem odos_post_headers:
  "(\<forall>req \<in> set (sent (Quote env c r)) \<union> set (sent (Assemble env c userAddr pathId isSimulate)).
      Header req ''Content-Type'' = Some ''application/json''
      \<and> Header req ''Accept'' = Some ''*/*''
      \<and> Header req ''Origin'' = Some ''https://app.odos.xyz''
      \<and> Header req ''Referer'' = Some ''https://app.odos.xyz/'')
   \<and> (\<forall>req \<in> set (sent (GetTokenPrice env c chainID tokenAddr)).
      Method req = ''GET'' \<and> Header req = Map.empty)"
proof -
  have q: "\<forall>req \<in> set (sent (Quote env c r)).
      Header req ''Content-Type'' = Some ''application/json''
      \<and> Header req ''Accept'' = Some ''*/*''
      \<and> Header req ''Origin'' = Some ''https://app.odos.xyz''
      \<and> Header req ''Referer'' = Some ''https://app.odos.xyz/''"
    using Quote_sent [of env c r] odos_set_headers_Header by fastforce
  have a: "\<forall>req \<in> set (sent (Assemble env c userAddr pathId isSimulate)).
      Header req ''Content-Type'' = Some ''application/json''
      \<and> Header req ''Accept'' = Some ''*/*''
      \<and> Header req ''Origin'' = Some ''https://app.odos.xyz''
      \<and> Header req ''Referer'' = Some ''https://app.odos.xyz/''"
    using Assemble_sent [of env c userAddr pathId isSimulate] odos_set_headers_Header
    by fastforce
  have g: "\<forall>req \<in> set (sent (GetTokenPrice env c chainID tokenAddr)).
      Method req = ''GET'' \<and> Header req = Map.empty"
    using GetTokenPrice_sent [of env c chainID tokenAddr] by fastforce
  show ?thesis using q a g by blast
qed

theorem odos_post_headers_witness:
  "odos_set_headers \<lparr>Method = ''POST'', URL = ''https://api.odos.xyz/sor/quote/v2'',
          Header = Map.empty, ReqBody = Some ''{}''\<rparr>
     \<in> set (sent (Quote (stub_odos_env 200 ''{}'') stub_OdosClient None))
         \<union> set (sent (Assemble (stub_odos_env 200 ''{}'') stub_OdosClient ''0xabc'' ''p1'' True))
   \<and> Header (odos_set_headers \<lparr>Method = ''POST'', URL = ''https://api.odos.xyz/sor/quote/v2'',
          Header = Map.empty, ReqBody = Some ''{}''\<rparr>) ''Origin'' = Some ''https://app.odos.xyz''
   \<and> \<lparr>Method = ''GET'', URL = ''https://api.odos.xyz/pricing/token/1/0xdai'',
         Header = Map.empty, ReqBody = None\<rparr>
     \<in> set (sent (GetTokenPrice (stub_odos_env 200 ''{}'') stub_OdosClient ''1'' ''0xdai''))"
proof -
  let ?qreq = "odos_set_headers \<lparr>Method = ''POST'', URL = ''https://api.odos.xyz/sor/quote/v2'',
          Header = Map.empty, ReqBody = Some ''{}''\<rparr>"
  let ?greq = "\<lparr>Method = ''GET'', URL = ''https://api.odos.xyz/pricing/token/1/0xdai'',
         Header = Map.empty, ReqBody = None\<rparr>"
  have qs: "sent (Quote (stub_odos_env 200 ''{}'') stub_OdosClient None) = [?qreq]"
    by (simp add: Quote_def stub_odos_env_def stub_OdosClient_def NewRequest_def fail_def
        succeed_def Let_def odos_baseURL_def split: sum.splits)
  have gs: "sent (GetTokenPrice (stub_odos_env 200 ''{}'') stub_OdosClient ''1'' ''0xdai'')
              = [?greq]"
    by (simp add: GetTokenPrice_def Client_Get_def stub_odos_env_def stub_OdosClient_def
        NewRequest_def fail_def succeed_def Let_def odos_baseURL_def split: sum.splits)
  have m: "?qreq \<in> set (sent (Quote (stub_odos_env 200 ''{}'') stub_OdosClient None))
         \<union> set (sent (Assemble (stub_odos_env 200 ''{}'') stub_OdosClient ''0xabc'' ''p1'' True))"
    unfolding qs by simp
  have n: "?greq \<in> set (sent (GetTokenPrice (stub_odos_env 200 ''{}'') stub_OdosClient
                                 ''1'' ''0xdai''))"
    unfolding gs by simp
  from odos_post_headers [where env = "stub_odos_env 200 ''{}''" and c = stub_OdosClient
      and r = None and userAddr = "''0xabc''" and pathId = "''p1''" and isSimulate = True
      and chainID = "''1''" and tokenAddr = "''0xdai''"] m
  have "Header ?qreq ''Origin'' = Some ''https://app.odos.xyz''"
    by blast
  then show ?thesis
    using m n by blast
qed

section \<open>The round trip of the request records\<close>

text \<open>
  C6, counterexample. A quote request whose gas price is NaN is not marshalled at all. An
  assemble request whose user address is the single byte FF, which is not UTF-8, is
  marshalled with U+FFFD in its place and read back with the three bytes of U+FFFD as
  its user address.
\<close>

theorem request_round_trip_counterexample:
  "encode_QuoteRequest stub_strconv nan_QuoteRequest
     = Inl (Error ''json: unsupported value: NaN'' None)
   \<and> encode_AssembleRequest
        \<lparr>AssembleRequest.UserAddr = [CHR 0xFF], AssembleRequest.PathId = ''p'',
         AssembleRequest.Simulate = False\<rparr>
     = Inr (JObject [(''userAddr'', JString [CHR 0xEF, CHR 0xBF, CHR 0xBD]),
                     (''pathId'', JString ''p''), (''simulate'', JBool False)])
   \<and> decode_AssembleRequest
        (JObject [(''userAddr'', JString [CHR 0xEF, CHR 0xBF, CHR 0xBD]),
                  (''pathId'', JString ''p''), (''simulate'', JBool False)])
        zero_AssembleRequest
     = Inr \<lparr>AssembleRequest.UserAddr = [CHR 0xEF, CHR 0xBF, CHR 0xBD],
            AssembleRequest.PathId = ''p'', AssembleRequest.Simulate = False\<rparr>
   \<and> \<lparr>AssembleRequest.UserAddr = [CHR 0xEF, CHR 0xBF, CHR 0xBD],
       AssembleRequest.PathId = ''p'', AssembleRequest.Simulate = False\<rparr>
     \<noteq> \<lparr>AssembleRequest.UserAddr = [CHR 0xFF], AssembleRequest.PathId = ''p'',
         AssembleRequest.Simulate = False\<rparr>"
proof -
  have e: "encode_AssembleRequest
        \<lparr>AssembleRequest.UserAddr = [CHR 0xFF], AssembleRequest.PathId = ''p'',
         AssembleRequest.Simulate = False\<rparr>
     = Inr (JObject [(''userAddr'', JString [CHR 0xEF, CHR 0xBF, CHR 0xBD]),
                     (''pathId'', JString ''p''), (''simulate'', JBool False)])"
    by code_simp
  have d: "decode_AssembleRequest
        (JObject [(''userAddr'', JString [CHR 0xEF, CHR 0xBF, CHR 0xBD]),
                  (''pathId'', JString ''p''), (''simulate'', JBool False)])
        zero_AssembleRequest
     = Inr \<lparr>AssembleRequest.UserAddr = [CHR 0xEF, CHR 0xBF, CHR 0xBD],
            AssembleRequest.PathId = ''p'', AssembleRequest.Simulate = False\<rparr>"
    by code_simp
  show ?thesis
    using encode_nan_QuoteRequest e d by simp
qed

text \<open>
  C6, as amended. Let \<open>strconv\<close> read every finite \<open>float64\<close> back from what it writes
  for it. Then a \<open>QuoteRequest\<close>, an \<open>AssembleRequest\<close> and a \<open>BuildRouteRequest\<close> whose
  floats are finite, whose strings are valid UTF-8 and whose \<open>Extra\<close> values hold what
  \<open>Unmarshal\<close> stores in an \<open>interface{}\<close> are marshalled without error, and unmarshalling
  what was written gives the record back, equal in every field, whatever the variable read
  into held before.
\<close>

theorem request_round_trip:
  assumes "\<forall>f. float64_finite f \<longrightarrow> ParseFloat sc (FormatFloat sc f) = Some f"
  shows "(wf_QuoteRequest q \<longrightarrow>
            (\<exists>j. encode_QuoteRequest sc q = Inr j
                 \<and> (\<forall>old. decode_QuoteRequest sc j old = Inr q)))
       \<and> (wf_AssembleRequest a \<longrightarrow>
            (\<exists>j. encode_AssembleRequest a = Inr j
                 \<and> (\<forall>old. decode_AssembleRequest j old = Inr a)))
       \<and> (wf_BuildRouteRequest b \<longrightarrow>
            (\<exists>j. encode_BuildRouteRequest sc b = Inr j
                 \<and> (\<forall>old. decode_BuildRouteRequest sc j old = Inr b)))"
  using QuoteRequest_round_trip [OF assms, of q] AssembleRequest_round_trip [of a]
    BuildRouteRequest_round_trip [OF assms, of b]
  unfolding round_trips_def by blast

theorem request_round_trip_witness:
  "(\<exists>j. encode_QuoteRequest stub_strconv test_QuoteRequest = Inr j
        \<and> decode_QuoteRequest stub_strconv j zero_QuoteRequest = Inr test_QuoteRequest
        \<and> decode_QuoteRequest stub_strconv j nan_QuoteRequest = Inr test_QuoteRequest)
   \<and> (\<exists>j. encode_AssembleRequest test_AssembleRequest = Inr j
        \<and> decode_AssembleRequest j zero_AssembleRequest = Inr test_AssembleRequest)
   \<and> (\<exists>j. encode_BuildRouteRequest stub_strconv example_BuildRouteRequest = Inr j
        \<and> decode_BuildRouteRequest stub_strconv j zero_BuildRouteRequest
            = Inr example_BuildRouteRequest)"
  using request_round_trip [OF stub_strconv_round_trip, of test_QuoteRequest
      test_AssembleRequest example_BuildRouteRequest]
    wf_test_QuoteRequest wf_test_AssembleRequest wf_example_BuildRouteRequest
  by blast

end
